theory Spec2Isabelle
  imports Main "HOL-Library.Word"
begin

unbundle bit_operations_syntax

section \<open>Basic types\<close>

text \<open>
  Go's \<open>int64\<close> is a 64-bit word read as two's complement (\<open>sint\<close>) wherever the source
  compares it with \<open><\<close> or \<open>></\<close>. A Go \<open>string\<close> is a byte sequence, so \<open>len\<close> is
  \<open>length\<close>. An \<open>error\<close> is its message; a function of result type \<open>error\<close> returns
  \<open>None\<close> for \<open>nil\<close>, and a function of result type \<open>(T, error)\<close> returns a sum with the
  error on the left. A \<open>time.Time\<close> is the instant's offset from the zero time, so that
  \<open>IsZero\<close> is the comparison with 0 and \<open>Before\<close> is \<open><\<close>.

  Record fields carry a prefix naming their struct (\<open>cb_\<close> for \<open>ContractBlock\<close>,
  \<open>c_\<close> for the ledger's \<open>Contract\<close>, ...), because many structs of the source share field
  names. The records list the fields that the functions modelled below read or write,
  together with their scalar neighbours; the remaining fields of the source's structs are
  only ever serialised.
\<close>

type_synonym int64 = "64 word"
type_synonym byte = "8 word"
type_synonym error = string
type_synonym Time = int

definition IsZero :: "Time \<Rightarrow> bool" where
  "IsZero t = (t = 0)"

definition Before :: "Time \<Rightarrow> Time \<Rightarrow> bool" where
  "Before t u = (t < u)"

section \<open>Package contract: the data model\<close>

definition SHA256_HASH_BASE64_LENGTH :: nat where
  "SHA256_HASH_BASE64_LENGTH = 44"

definition SIGNATURE_RSA2048_BASE64_LENGTH :: nat where
  "SIGNATURE_RSA2048_BASE64_LENGTH = 344"

definition InstructionMinLength :: nat where
  "InstructionMinLength = 60"

definition Signatory :: string where
  "Signatory = ''signatory''"

definition Creator :: string where
  "Creator = ''creator''"

definition SignPackageMethodId_Constructed :: int64 where
  "SignPackageMethodId_Constructed = 2"

definition SignPackageMethodId_Embedded :: int64 where
  "SignPackageMethodId_Embedded = 3"

record ContractParticipant =
  cp_UserId :: string
  cp_Roles :: "string list"
  cp_FullName :: string
  cp_CanVoidContract :: bool
  cp_KycLevel :: int64

record ContractOptions =
  co_ExpiryDate :: "Time option"
  co_DaysToSign :: int64
  co_MaxDaysToSign :: int64
  co_AllowSignatureExtension :: bool

record ContractDefinition =
  cd_ContractFamilyId :: int64
  cd_ContractType :: int64
  cd_ContractTypeVersion :: int64
  cd_SchemaVersion :: int64

record SignatureMethod =
  sm_PackageMethodId :: int64
  sm_SignatureType :: string
  sm_SignatureProvider :: string

record NotaryInstructPackage =
  nip_ContractId :: int64
  nip_NotaryId :: string
  nip_ApprovalState :: string

record CreatorAcceptancePackage =
  cap_ContractId :: int64
  cap_NotarySignatureHash :: string

record ReleaseInstructionDetail =
  rid_Instructions :: string
  rid_IsCustomRelease :: bool
  rid_StandardReleaseTemplateId :: int64
  rid_NotaryPackage :: "NotaryInstructPackage option"
  rid_AcceptancePackage :: "CreatorAcceptancePackage option"
  rid_NotarySignature :: string
  rid_AcceptanceSignature :: string
  rid_IsEvidenceRequiredForRelease :: bool
  rid_ConsensusMethod :: string
  rid_MinVerifiersForConsensus :: int64

record ContractBlock =
  cb_ContractID :: int64
  cb_SchemaVersion :: int64
  cb_ContractFamilyId :: int64
  cb_ContractTypeId :: int64
  cb_ContractTypeVersion :: int64
  cb_Participants :: "ContractParticipant list"
  cb_ContractOptions :: ContractOptions
  cb_SignatureMethod :: SignatureMethod
  cb_StorageYears :: int64
  cb_ReleaseInstructions :: "ReleaseInstructionDetail option"
  cb_Definition :: ContractDefinition
  cb_SealedOnDate :: Time

record ContractSignaturePackage =
  sp_SignatureId :: string
  sp_ContractId :: int64
  sp_ContractHash :: string
  sp_UserId :: string
  sp_UserFullName :: string
  sp_DateSigned :: Time
  sp_IpAddress :: string
  sp_SignatureProvider :: string
  sp_SignatureType :: string
  sp_IsApprover :: bool

record SignedContractSignature =
  scs_ContractSignaturePackage :: ContractSignaturePackage
  scs_ContractSignaturePackageHash :: string
  scs_Signature :: string

record ContractSignatures =
  cs_ContractHash :: string
  cs_HasApprovers :: bool
  cs_SealedOnDate :: Time
  cs_Signatures :: "SignedContractSignature list"

record ImmutableContract =
  ic_Contract :: ContractBlock
  ic_ContractHash :: string
  ic_ContractSignatures :: ContractSignatures
  ic_ContractSignaturesHash :: string
  ic_SealedOnDate :: Time

section \<open>Package contract: the methods\<close>

text \<open>
  \<open>IsRole\<close> has a pointer receiver that it tests for \<open>nil\<close>: the receiver is an option.
  The body of its \<open>for ... range c.Roles\<close> loop is the single statement
  \<open>return r == role\<close>, so the loop leaves the function in its first iteration; only an
  empty slice reaches the final \<open>return false\<close>.
\<close>

fun IsRole_loop :: "string list \<Rightarrow> string \<Rightarrow> bool" where
  "IsRole_loop [] role = False"
| "IsRole_loop (r # rs) role = (r = role)"

definition IsRole :: "ContractParticipant option \<Rightarrow> string \<Rightarrow> bool" where
  "IsRole c role =
     (case c of
        None \<Rightarrow> False
      | Some p \<Rightarrow> if role = [] then False else IsRole_loop (cp_Roles p) role)"

fun count_signatories :: "nat \<Rightarrow> ContractParticipant list \<Rightarrow> nat" where
  "count_signatories count [] = count"
| "count_signatories count (p # ps) =
     count_signatories (if IsRole (Some p) Signatory then count + 1 else count) ps"

definition GetSignatoryCountFromParticipants :: "ContractBlock option \<Rightarrow> nat" where
  "GetSignatoryCountFromParticipants c =
     (case c of
        None \<Rightarrow> 0
      | Some cb \<Rightarrow> count_signatories 0 (cb_Participants cb))"

definition ContractBlock_Validate :: "ContractBlock \<Rightarrow> error option" where
  "ContractBlock_Validate cb =
     (let d = cb_Definition cb in
      if cb_ContractFamilyId cb \<noteq> cd_ContractFamilyId d then Some ''invalid contract family id''
      else if cb_ContractTypeId cb \<noteq> cd_ContractType d then Some ''invalid contract type id''
      else if cb_ContractTypeVersion cb = 0 then Some ''invalid contract type version''
      else if sint (cb_StorageYears cb) < 1 \<or> sint (cb_StorageYears cb) > 30
        then Some ''invalid storage years''
      else
        (let opt = cb_ContractOptions cb in
         case co_ExpiryDate opt of
           None \<Rightarrow> None
         | Some expiry \<Rightarrow>
             if Before expiry (cb_SealedOnDate cb) then Some ''invalid expiry date''
             else if sint (co_DaysToSign opt) < 1 then Some ''invalid days to sign''
             else if co_AllowSignatureExtension opt \<and> sint (co_MaxDaysToSign opt) < 1
               then Some ''invalid days to sign extension''
             else None))"

definition ReleaseInstructionDetail_Validate ::
    "ReleaseInstructionDetail \<Rightarrow> bool \<Rightarrow> error option" where
  "ReleaseInstructionDetail_Validate rid evidenceRequired =
     (if length (rid_Instructions rid) < InstructionMinLength then Some ''invalid instructions''
      else if \<not> rid_IsCustomRelease rid then
        (if sint (rid_StandardReleaseTemplateId rid) < 1
         then Some ''invalid standard release template id'' else None)
      else
        (case rid_NotaryPackage rid of
           Some np \<Rightarrow>
             if rid_NotarySignature rid = [] then Some ''invalid notary signature''
             else if nip_ApprovalState np \<noteq> ''none'' then
               (if rid_AcceptancePackage rid = None then Some ''invalid acceptance package''
                else if rid_AcceptanceSignature rid = [] then Some ''invalid acceptance signature''
                else None)
             else None
         | None \<Rightarrow>
             if rid_ConsensusMethod rid = [] then Some ''invalid consensus method''
             else if evidenceRequired \<and> \<not> rid_IsEvidenceRequiredForRelease rid
               then Some ''invalid evidence required for release flag''
             else None))"

text \<open>
  \<open>fmt.Errorf\<close> with \<open>%v\<close> on a string inserts the string; the format strings of the
  source put it between apostrophes (character 0x27).
\<close>

definition formatSignedPackageErr :: "string \<Rightarrow> string \<Rightarrow> string \<Rightarrow> error" where
  "formatSignedPackageErr userId userName msgPostfix =
     ''contract signature package for user id '' @ [CHR 0x27] @ userId @ [CHR 0x27]
       @ '' and name '' @ [CHR 0x27] @ userName @ [CHR 0x27] @ '', has error: '' @ msgPostfix"

definition missingPackageErr :: "string \<Rightarrow> error" where
  "missingPackageErr userId =
     ''contract signatures block does not have a signature package for signatory user id ''
       @ [CHR 0x27] @ userId @ [CHR 0x27]"

text \<open>
  The checks that \<open>ValidateSignaturesComplete\<close> runs on a package whose \<open>UserId\<close> equals the
  participant's, in the order of the source. The blocks guarded by
  \<open>requireConstructedContent\<close> hold only comments in the source and do nothing.
\<close>

definition check_matching_package ::
    "ImmutableContract \<Rightarrow> bool \<Rightarrow> SignedContractSignature \<Rightarrow> error option" where
  "check_matching_package c isEmbedded sp =
     (let pkg = scs_ContractSignaturePackage sp;
          fail = formatSignedPackageErr (sp_UserId pkg) (sp_UserFullName pkg) in
      if sp_UserFullName pkg = [] then Some (fail ''full name not set'')
      else if IsZero (sp_DateSigned pkg) then Some (fail ''signed on data not set'')
      else if length (sp_ContractHash pkg) \<noteq> SHA256_HASH_BASE64_LENGTH
        then Some (fail ''package hash no set or incorrect length'')
      else if cs_ContractHash (ic_ContractSignatures c) \<noteq> sp_ContractHash pkg
        then Some (fail ''contract hash does not match contract hash in signature package'')
      else if sp_ContractId pkg \<noteq> cb_ContractID (ic_Contract c)
        then Some (fail ''contract id does not match contract id in signature package'')
      else if \<not> isEmbedded then
        (if length (scs_ContractSignaturePackageHash sp) \<noteq> SHA256_HASH_BASE64_LENGTH
           then Some (fail ''package hash not of correct length'')
         else if scs_Signature sp = [] then Some (fail ''missing signature'')
         else if length (scs_Signature sp) \<noteq> SIGNATURE_RSA2048_BASE64_LENGTH
           then Some (fail ''signature is not of correct length '')
         else None)
      else None)"

text \<open>
  The inner loop over the signature packages, for one participant \<open>p\<close>. The variable
  \<open>found\<close> is declared once before the outer loop and never reset, so the loop takes its
  current value and returns the value it leaves behind. The test \<open>if !found\<close> stands inside
  the loop body, after the test of the package at hand.
\<close>

fun packages_loop ::
    "ImmutableContract \<Rightarrow> bool \<Rightarrow> ContractParticipant \<Rightarrow> bool \<Rightarrow>
     SignedContractSignature list \<Rightarrow> error + bool" where
  "packages_loop c isEmbedded p found [] = Inr found"
| "packages_loop c isEmbedded p found (sp # sps) =
     (if sp_UserId (scs_ContractSignaturePackage sp) = cp_UserId p then
        (case check_matching_package c isEmbedded sp of
           Some e \<Rightarrow> Inl e
         | None \<Rightarrow> packages_loop c isEmbedded p True sps)
      else if \<not> found then Inl (missingPackageErr (cp_UserId p))
      else packages_loop c isEmbedded p found sps)"

fun participants_loop ::
    "ImmutableContract \<Rightarrow> bool \<Rightarrow> bool \<Rightarrow> ContractParticipant list \<Rightarrow> error option" where
  "participants_loop c isEmbedded found [] = None"
| "participants_loop c isEmbedded found (p # ps) =
     (if IsRole (Some p) Signatory then
        (case packages_loop c isEmbedded p found (cs_Signatures (ic_ContractSignatures c)) of
           Inl e \<Rightarrow> Some e
         | Inr found' \<Rightarrow> participants_loop c isEmbedded found' ps)
      else participants_loop c isEmbedded found ps)"

definition ValidateSignaturesComplete :: "ImmutableContract option \<Rightarrow> error option" where
  "ValidateSignaturesComplete c0 =
     (case c0 of
        None \<Rightarrow> Some ''contract container is nil for method: ValidateSignaturesComplete''
      | Some c \<Rightarrow>
          if length (cs_ContractHash (ic_ContractSignatures c)) \<noteq> SHA256_HASH_BASE64_LENGTH
            then Some ''contract signatures block does not have a contract hash set, or is not of correct length''
          else
            (let signedPackCount = length (cs_Signatures (ic_ContractSignatures c)) in
             if signedPackCount = 0
               then Some ''contract signatures block does not have any signature packages set''
             else
               (let signatoryCount = GetSignatoryCountFromParticipants (Some (ic_Contract c)) in
                if signedPackCount \<noteq> signatoryCount
                  then Some ''contract signatures block does not have the same number of signature packages as there are signatories''
                else
                  (let isEmbedded =
                         (sm_PackageMethodId (cb_SignatureMethod (ic_Contract c))
                            = SignPackageMethodId_Embedded)
                   in participants_loop c isEmbedded False (cb_Participants (ic_Contract c))))))"

section \<open>Package service: hashing and request parsing\<close>

text \<open>
  The functions of Go's standard library that the service calls are not code of this
  repository. \<open>encoding/json\<close>, \<open>crypto/sha256\<close> and the decoder of
  \<open>base64.RawStdEncoding\<close> are taken as parameters, collected in a record: \<open>'a\<close> is the
  type of the value that is hashed and \<open>'r\<close> the type of the request that is decoded. A
  SHA-256 digest is a 256-bit word; \<open>Sum\<close> lists its 32 bytes, most significant first.
  \<open>base64.StdEncoding.EncodeToString\<close> is written out (RFC 4648, with padding).
\<close>

record ('a, 'r) GoLib =
  json_Marshal :: "'a \<Rightarrow> error + byte list"
  json_Compact :: "byte list \<Rightarrow> error + byte list"
  sha256_Sum :: "byte list \<Rightarrow> 256 word"
  base64_RawStdDecode :: "string \<Rightarrow> error + byte list"
  json_Unmarshal :: "byte list \<Rightarrow> error + 'r"

definition Sum :: "256 word \<Rightarrow> byte list" where
  "Sum w = map (\<lambda>i. ucast (drop_bit (8 * (31 - i)) w)) [0..<32]"

definition encodeStd :: string where
  "encodeStd = ''ABCDEFGHIJKLMNOPQRSTUVWXYZabcdefghijklmnopqrstuvwxyz0123456789+/''"

definition enc64 :: "byte \<Rightarrow> char" where
  "enc64 v = encodeStd ! unat (v AND 63)"

fun EncodeToString :: "byte list \<Rightarrow> string" where
  "EncodeToString (a # b # c # rest) =
     enc64 (drop_bit 2 a) # enc64 (push_bit 4 a OR drop_bit 4 b)
       # enc64 (push_bit 2 b OR drop_bit 6 c) # enc64 c # EncodeToString rest"
| "EncodeToString [a, b] =
     [enc64 (drop_bit 2 a), enc64 (push_bit 4 a OR drop_bit 4 b), enc64 (push_bit 2 b),
      CHR ''='']"
| "EncodeToString [a] = [enc64 (drop_bit 2 a), enc64 (push_bit 4 a), CHR ''='', CHR ''='']"
| "EncodeToString [] = []"

definition JsonHashS256 :: "('a, 'r) GoLib \<Rightarrow> 'a option \<Rightarrow> error + string" where
  "JsonHashS256 lib data =
     (case data of
        None \<Rightarrow> Inl ''data is nil''
      | Some v \<Rightarrow>
          (case json_Marshal lib v of
             Inl err \<Rightarrow> Inl err
           | Inr bytesData \<Rightarrow>
               (case json_Compact lib bytesData of
                  Inl err \<Rightarrow> Inl err
                | Inr bb \<Rightarrow> Inr (EncodeToString (Sum (sha256_Sum lib bb))))))"

text \<open>\<open>ParseRequest\<close> fills the object it is given; the model returns the object.\<close>

definition ParseRequest :: "('a, 'r) GoLib \<Rightarrow> string \<Rightarrow> error + 'r" where
  "ParseRequest lib data =
     (if data = [] then Inl ''data is empty''
      else
        (case base64_RawStdDecode lib data of
           Inl err \<Rightarrow> Inl err
         | Inr dataBytes \<Rightarrow>
             (case json_Unmarshal lib dataBytes of
                Inl err \<Rightarrow> Inl err
              | Inr obj \<Rightarrow> Inr obj)))"

section \<open>Package service: the ledger\<close>

definition ContractStateActive :: string where
  "ContractStateActive = ''active''"

definition ContractStateVoided :: string where
  "ContractStateVoided = ''voided''"

definition ContractStateExpired :: string where
  "ContractStateExpired = ''expired''"

definition ContractStateReleased :: string where
  "ContractStateReleased = ''released''"

record NewAssetReq =
  nar_ImmutableContract :: ImmutableContract
  nar_ImmutableContractHash :: string
  nar_NotaryOU :: string

record VoidAssetReq =
  var_ImmutableContract :: ImmutableContract
  var_ImmutableContractHash :: string
  var_ContractId :: int64
  var_PackageId :: int64
  var_PackageHash :: string

record Change =
  ch_PackageID :: int64
  ch_PackageHash :: string
  ch_PackageDate :: string
  ch_CallerSdn :: string
  ch_Action :: string
  ch_NewState :: string

record Contract =
  c_ContractId :: int64
  c_Version :: int64
  c_ContractHash :: string
  c_CreatedAt :: string
  c_UpdatedAt :: string
  c_State :: string
  c_Changes :: "Change list"

record CreateAssetResponse =
  car_ContractId :: int64
  car_TxId :: string

record VoidResponse =
  vr_TxId :: string

record ExpireResponse =
  er_TxId :: string

text \<open>
  The transaction context, with what the service reads from its surroundings. The world
  state maps a key to the stored bytes as \<open>json.Unmarshal\<close> reads them back into a
  \<open>Contract\<close>: the asset, or the decoding error for bytes that are no such JSON document.
  \<open>json.Marshal\<close> of a \<open>Contract\<close> (integers, strings and a slice of such structs) cannot
  fail, and unmarshalling its output gives the asset back, so \<open>PutState\<close> of the marshalled
  asset stores the asset. \<open>writes\<close> lists the \<open>PutState\<close> calls made, in order.
  \<open>getStateErr\<close> and \<open>putStateErr\<close> are the failures of the ledger gateway, \<open>mspID\<close> is
  the result of \<open>shim.GetMSPID()\<close>, and \<open>now\<close> is \<open>time.Now().Format(time.RFC3339)\<close>.
  No operation reads a key after writing it, so the write is applied to the world state at
  once.
\<close>

record TransactionContext =
  world :: "string \<rightharpoonup> error + Contract"
  writes :: "(string \<times> Contract) list"
  getStateErr :: "error option"
  putStateErr :: "error option"
  mspID :: "error + string"
  txID :: string
  now :: string

definition GetState :: "TransactionContext \<Rightarrow> string \<Rightarrow> error + (error + Contract) option" where
  "GetState ctx key = (case getStateErr ctx of Some err \<Rightarrow> Inl err | None \<Rightarrow> Inr (world ctx key))"

definition PutState :: "TransactionContext \<Rightarrow> string \<Rightarrow> Contract \<Rightarrow> error + TransactionContext" where
  "PutState ctx key asset =
     (case putStateErr ctx of
        Some err \<Rightarrow> Inl err
      | None \<Rightarrow> Inr (ctx\<lparr>world := (world ctx)(key \<mapsto> Inr asset),
                         writes := writes ctx @ [(key, asset)]\<rparr>))"

text \<open>\<open>fmt.Sprint\<close> of an \<open>int64\<close>, and the verb \<open>%d\<close>: the signed decimal numeral.\<close>

fun decimal :: "nat \<Rightarrow> string" where
  "decimal n =
     (if n < 10 then [''0123456789'' ! n]
      else decimal (n div 10) @ [''0123456789'' ! (n mod 10)])"

declare decimal.simps [simp del]

definition Sprint :: "int64 \<Rightarrow> string" where
  "Sprint n =
     (if sint n < 0 then CHR ''-'' # decimal (nat (- sint n)) else decimal (nat (sint n)))"

definition ReadAsset :: "TransactionContext \<Rightarrow> string \<Rightarrow> error + Contract" where
  "ReadAsset ctx ident =
     (case GetState ctx ident of
        Inl err \<Rightarrow> Inl (''failed to read from world state: '' @ err)
      | Inr None \<Rightarrow> Inl (''the asset '' @ ident @ '' does not exist'')
      | Inr (Some contractJSON) \<Rightarrow>
          (case contractJSON of Inl err \<Rightarrow> Inl err | Inr asset \<Rightarrow> Inr asset))"

definition AssetExists :: "TransactionContext \<Rightarrow> string \<Rightarrow> error + bool" where
  "AssetExists ctx ident =
     (case GetState ctx ident of
        Inl err \<Rightarrow> Inl (''failed to read from world state: '' @ err)
      | Inr assetJSON \<Rightarrow> Inr (assetJSON \<noteq> None))"

section \<open>Package service: the operations\<close>

text \<open>
  Each operation returns its result together with the transaction context it leaves.
  \<open>CreateAsset\<close> carries a \<open>todo\<close> comment where the other two compare the schema
  versions, and compares nothing there.
\<close>

definition CreateAsset ::
    "(ImmutableContract, NewAssetReq) GoLib \<Rightarrow> TransactionContext \<Rightarrow> string \<Rightarrow>
     (error + CreateAssetResponse) \<times> TransactionContext" where
  "CreateAsset lib ctx data =
     (case ParseRequest lib data of
        Inl err \<Rightarrow> (Inl err, ctx)
      | Inr cc \<Rightarrow>
     (case JsonHashS256 lib (Some (nar_ImmutableContract cc)) of
        Inl err \<Rightarrow> (Inl err, ctx)
      | Inr icHash \<Rightarrow>
     if icHash \<noteq> nar_ImmutableContractHash cc
       then (Inl ''invalid immutable contract hash'', ctx)
     else
     (case ContractBlock_Validate (ic_Contract (nar_ImmutableContract cc)) of
        Some err \<Rightarrow> (Inl err, ctx)
      | None \<Rightarrow>
     (let t = now ctx;
          contract0 = \<lparr>c_ContractId = 0, c_Version = cb_SchemaVersion (ic_Contract (nar_ImmutableContract cc)),
                       c_ContractHash = nar_ImmutableContractHash cc, c_CreatedAt = t,
                       c_UpdatedAt = t, c_State = ContractStateActive, c_Changes = []\<rparr>;
          contract = contract0\<lparr>c_ContractId := cb_ContractID (ic_Contract (nar_ImmutableContract cc))\<rparr>;
          contractIdStr = Sprint (c_ContractId contract)
      in
     (case AssetExists ctx contractIdStr of
        Inl err \<Rightarrow> (Inl err, ctx)
      | Inr exists \<Rightarrow>
     if exists
       then (Inl (''the contract '' @ Sprint (c_ContractId contract) @ '' already exists''), ctx)
     else
     (case PutState ctx contractIdStr contract of
        Inl err \<Rightarrow> (Inl err, ctx)
      | Inr ctx' \<Rightarrow>
          (Inr \<lparr>car_ContractId = c_ContractId contract, car_TxId = txID ctx'\<rparr>, ctx')))))))"

definition VoidAsset ::
    "(ImmutableContract, VoidAssetReq) GoLib \<Rightarrow> TransactionContext \<Rightarrow> string \<Rightarrow>
     (error + VoidResponse) \<times> TransactionContext" where
  "VoidAsset lib ctx data =
     (case ParseRequest lib data of
        Inl err \<Rightarrow> (Inl err, ctx)
      | Inr cc \<Rightarrow>
     (case JsonHashS256 lib (Some (var_ImmutableContract cc)) of
        Inl err \<Rightarrow> (Inl err, ctx)
      | Inr icHash \<Rightarrow>
     if icHash \<noteq> var_ImmutableContractHash cc
       then (Inl ''invalid immutable contract hash'', ctx)
     else if cb_SchemaVersion (ic_Contract (var_ImmutableContract cc))
               \<noteq> cd_SchemaVersion (cb_Definition (ic_Contract (var_ImmutableContract cc)))
       then (Inl ''contract schema version does not match with definition'', ctx)
     else
     (case ContractBlock_Validate (ic_Contract (var_ImmutableContract cc)) of
        Some err \<Rightarrow> (Inl err, ctx)
      | None \<Rightarrow>
     (case mspID ctx of
        Inl err \<Rightarrow> (Inl (''failed getting peer's orgID: '' @ err), ctx)
      | Inr peerOrgID \<Rightarrow>
     (case ReadAsset ctx (Sprint (var_ContractId cc)) of
        Inl err \<Rightarrow> (Inl err, ctx)
      | Inr asset \<Rightarrow>
     if c_State asset = ContractStateVoided then (Inl ''contract already voided'', ctx)
     else if c_State asset = ContractStateExpired then (Inl ''contract expired, cannot void'', ctx)
     else if c_State asset = ContractStateReleased then (Inl ''contract released, cannot void'', ctx)
     else
     (let t = now ctx;
          asset1 = asset\<lparr>c_State := ContractStateVoided\<rparr>;
          asset2 = asset1\<lparr>c_UpdatedAt := t\<rparr>;
          asset3 = asset2\<lparr>c_Changes := c_Changes asset2 @
                     [\<lparr>ch_PackageID = var_PackageId cc, ch_PackageHash = var_PackageHash cc,
                       ch_PackageDate = t, ch_CallerSdn = [], ch_Action = ''void'',
                       ch_NewState = c_State asset2\<rparr>]\<rparr>
      in
     (case PutState ctx (Sprint (c_ContractId asset3)) asset3 of
        Inl err \<Rightarrow> (Inl err, ctx)
      | Inr ctx' \<Rightarrow> (Inr \<lparr>vr_TxId = txID ctx'\<rparr>, ctx'))))))))"

text \<open>\<open>ExpireAsset\<close> decodes its request into a \<open>VoidAssetReq\<close>, as the source does.\<close>

definition ExpireAsset ::
    "(ImmutableContract, VoidAssetReq) GoLib \<Rightarrow> TransactionContext \<Rightarrow> string \<Rightarrow>
     (error + ExpireResponse) \<times> TransactionContext" where
  "ExpireAsset lib ctx data =
     (case ParseRequest lib data of
        Inl err \<Rightarrow> (Inl err, ctx)
      | Inr cc \<Rightarrow>
     (case JsonHashS256 lib (Some (var_ImmutableContract cc)) of
        Inl err \<Rightarrow> (Inl err, ctx)
      | Inr icHash \<Rightarrow>
     if icHash \<noteq> var_ImmutableContractHash cc
       then (Inl ''invalid immutable contract hash'', ctx)
     else if cb_SchemaVersion (ic_Contract (var_ImmutableContract cc))
               \<noteq> cd_SchemaVersion (cb_Definition (ic_Contract (var_ImmutableContract cc)))
       then (Inl ''contract schema version does not match with definition'', ctx)
     else
     (case ContractBlock_Validate (ic_Contract (var_ImmutableContract cc)) of
        Some err \<Rightarrow> (Inl err, ctx)
      | None \<Rightarrow>
     (case ReadAsset ctx (Sprint (var_ContractId cc)) of
        Inl err \<Rightarrow> (Inl err, ctx)
      | Inr asset \<Rightarrow>
     if c_State asset = ContractStateVoided then (Inl ''contract voided, cannot expire'', ctx)
     else if c_State asset = ContractStateExpired then (Inl ''contract already expired'', ctx)
     else if c_State asset = ContractStateReleased then (Inl ''contract released, cannot expire'', ctx)
     else
     (let t = now ctx;
          asset1 = asset\<lparr>c_State := ContractStateExpired\<rparr>;
          asset2 = asset1\<lparr>c_UpdatedAt := t\<rparr>;
          asset3 = asset2\<lparr>c_Changes := c_Changes asset2 @
                     [\<lparr>ch_PackageID = var_PackageId cc, ch_PackageHash = var_PackageHash cc,
                       ch_PackageDate = t, ch_CallerSdn = [], ch_Action = ''expire'',
                       ch_NewState = c_State asset2\<rparr>]\<rparr>
      in
     (case PutState ctx (Sprint (var_ContractId cc)) asset3 of
        Inl err \<Rightarrow> (Inl err, ctx)
      | Inr ctx' \<Rightarrow> (Inr \<lparr>er_TxId = txID ctx'\<rparr>, ctx')))))))"

section \<open>Ledger invariant and the checks of the operations\<close>

text \<open>
  The operations write an asset under the decimal form of its own \<open>ContractId\<close>, and the
  only states they (and the release operation of the specification) give it are the four
  lifecycle states. \<open>ledger_wf\<close> says so of every asset of a world state; it holds of the
  empty ledger and every operation keeps it (lemmas \<open>ledger_wf_empty\<close>,
  \<open>CreateAsset_keeps_wf\<close>, \<open>VoidAsset_keeps_wf\<close>, \<open>ExpireAsset_keeps_wf\<close>).
\<close>

definition lifecycle_states :: "string list" where
  "lifecycle_states =
     [ContractStateActive, ContractStateVoided, ContractStateExpired, ContractStateReleased]"

definition ledger_wf :: "(string \<rightharpoonup> error + Contract) \<Rightarrow> bool" where
  "ledger_wf w =
     (\<forall>k c. w k = Some (Inr c) \<longrightarrow>
        k = Sprint (c_ContractId c) \<and> c_State c \<in> set lifecycle_states)"

text \<open>
  The checks that the specification puts before the write of \<open>CreateAsset\<close>, in its
  words and its order: the request parses, the digest of the immutable contract is the
  supplied hash (hash binding), the schema versions of block and definition agree
  (schema-version cross-check), the validator accepts the block, and the lookup of the
  contract id succeeds and finds nothing (existence). This predicate follows the
  specification, not the source: \<open>CreateAsset\<close> above makes all of these checks but the
  schema-version cross-check.
\<close>

definition CreateAsset_checks ::
    "(ImmutableContract, NewAssetReq) GoLib \<Rightarrow> TransactionContext \<Rightarrow> string \<Rightarrow> bool" where
  "CreateAsset_checks lib ctx data =
     (case ParseRequest lib data of
        Inl err \<Rightarrow> False
      | Inr cc \<Rightarrow>
          JsonHashS256 lib (Some (nar_ImmutableContract cc)) = Inr (nar_ImmutableContractHash cc)
          \<and> cb_SchemaVersion (ic_Contract (nar_ImmutableContract cc))
              = cd_SchemaVersion (cb_Definition (ic_Contract (nar_ImmutableContract cc)))
          \<and> ContractBlock_Validate (ic_Contract (nar_ImmutableContract cc)) = None
          \<and> AssetExists ctx (Sprint (cb_ContractID (ic_Contract (nar_ImmutableContract cc))))
              = Inr False)"

text \<open>
  The checks that \<open>VoidAsset\<close> and \<open>ExpireAsset\<close> make before they write: the request
  parses, the digest is the supplied hash, the schema versions of block and definition
  agree, the validator accepts the block, and the asset is read and is in none of the
  three states that block the transition.
\<close>

definition transition_checks ::
    "(ImmutableContract, VoidAssetReq) GoLib \<Rightarrow> TransactionContext \<Rightarrow> string \<Rightarrow> bool" where
  "transition_checks lib ctx data =
     (case ParseRequest lib data of
        Inl err \<Rightarrow> False
      | Inr cc \<Rightarrow>
          JsonHashS256 lib (Some (var_ImmutableContract cc)) = Inr (var_ImmutableContractHash cc)
          \<and> cb_SchemaVersion (ic_Contract (var_ImmutableContract cc))
              = cd_SchemaVersion (cb_Definition (ic_Contract (var_ImmutableContract cc)))
          \<and> ContractBlock_Validate (ic_Contract (var_ImmutableContract cc)) = None
          \<and> (case ReadAsset ctx (Sprint (var_ContractId cc)) of
                Inl err \<Rightarrow> False
              | Inr asset \<Rightarrow>
                  c_State asset \<noteq> ContractStateVoided \<and> c_State asset \<noteq> ContractStateExpired
                  \<and> c_State asset \<noteq> ContractStateReleased))"

text \<open>
  What a transition may change: one key of the world state, which held an asset \<open>old\<close>,
  now holds \<open>new\<close>; that is the one write; \<open>new\<close> has the changes of \<open>old\<close> followed by
  one more, and differs from \<open>old\<close> in \<open>State\<close>, \<open>UpdatedAt\<close> and \<open>Changes\<close> only.
\<close>

definition transition_frame :: "TransactionContext \<Rightarrow> TransactionContext \<Rightarrow> bool" where
  "transition_frame ctx ctx' =
     (\<exists>key old new ch.
        world ctx key = Some (Inr old)
        \<and> world ctx' = (world ctx)(key \<mapsto> Inr new)
        \<and> writes ctx' = writes ctx @ [(key, new)]
        \<and> c_Changes new = c_Changes old @ [ch]
        \<and> c_ContractId new = c_ContractId old
        \<and> c_Version new = c_Version old
        \<and> c_ContractHash new = c_ContractHash old
        \<and> c_CreatedAt new = c_CreatedAt old
        \<and> new = old\<lparr>c_State := c_State new, c_UpdatedAt := c_UpdatedAt new,
                      c_Changes := c_Changes new\<rparr>)"

section \<open>Example values\<close>

definition example_definition :: ContractDefinition where
  "example_definition =
     \<lparr>cd_ContractFamilyId = 1, cd_ContractType = 7, cd_ContractTypeVersion = 1,
      cd_SchemaVersion = 1\<rparr>"

definition example_options :: ContractOptions where
  "example_options =
     \<lparr>co_ExpiryDate = None, co_DaysToSign = 0, co_MaxDaysToSign = 0,
      co_AllowSignatureExtension = False\<rparr>"

definition example_hash :: string where
  "example_hash = ''AAAAAAAAAAAAAAAAAAAAAAAAAAAAAAAAAAAAAAAAAAA=''"

definition participant_of :: "string \<Rightarrow> string list \<Rightarrow> ContractParticipant" where
  "participant_of uid roles =
     \<lparr>cp_UserId = uid, cp_Roles = roles, cp_FullName = ''Full Name'',
      cp_CanVoidContract = False, cp_KycLevel = 1\<rparr>"

definition example_block :: "ContractParticipant list \<Rightarrow> ContractBlock" where
  "example_block ps =
     \<lparr>cb_ContractID = 42, cb_SchemaVersion = 1, cb_ContractFamilyId = 1, cb_ContractTypeId = 7,
      cb_ContractTypeVersion = 1, cb_Participants = ps, cb_ContractOptions = example_options,
      cb_SignatureMethod =
        \<lparr>sm_PackageMethodId = 3, sm_SignatureType = ''advanced'',
         sm_SignatureProvider = ''Subskribo''\<rparr>,
      cb_StorageYears = 10, cb_ReleaseInstructions = None, cb_Definition = example_definition,
      cb_SealedOnDate = 1000\<rparr>"

definition package_of :: "string \<Rightarrow> SignedContractSignature" where
  "package_of uid =
     \<lparr>scs_ContractSignaturePackage =
        \<lparr>sp_SignatureId = ''s1'', sp_ContractId = 42, sp_ContractHash = example_hash,
         sp_UserId = uid, sp_UserFullName = ''Full Name'', sp_DateSigned = 2000,
         sp_IpAddress = [], sp_SignatureProvider = ''Subskribo'',
         sp_SignatureType = ''advanced'', sp_IsApprover = False\<rparr>,
      scs_ContractSignaturePackageHash = [], scs_Signature = []\<rparr>"

definition example_contract ::
    "ContractParticipant list \<Rightarrow> SignedContractSignature list \<Rightarrow> ImmutableContract" where
  "example_contract ps sigs =
     \<lparr>ic_Contract = example_block ps, ic_ContractHash = example_hash,
      ic_ContractSignatures =
        \<lparr>cs_ContractHash = example_hash, cs_HasApprovers = False, cs_SealedOnDate = 3000,
         cs_Signatures = sigs\<rparr>,
      ic_ContractSignaturesHash = example_hash, ic_SealedOnDate = 3000\<rparr>"

text \<open>
  Two signatories \<open>c101\<close> and \<open>c102\<close>; two packages, of \<open>c101\<close> and of a user \<open>c999\<close> who is
  no participant: the package of \<open>c102\<close> is absent.
\<close>

definition two_signatories :: "ContractParticipant list" where
  "two_signatories = [participant_of ''c101'' [Signatory], participant_of ''c102'' [Signatory]]"

definition contract_missing_c102 :: ImmutableContract where
  "contract_missing_c102 =
     example_contract two_signatories [package_of ''c101'', package_of ''c999'']"

definition contract_one_package :: ImmutableContract where
  "contract_one_package = example_contract two_signatories [package_of ''c101'']"

definition creator_and_signatory :: ContractParticipant where
  "creator_and_signatory = participant_of ''c101'' [Creator, Signatory]"

definition release_without_instructions :: ReleaseInstructionDetail where
  "release_without_instructions =
     \<lparr>rid_Instructions = [], rid_IsCustomRelease = False, rid_StandardReleaseTemplateId = 0,
      rid_NotaryPackage = None, rid_AcceptancePackage = None, rid_NotarySignature = [],
      rid_AcceptanceSignature = [], rid_IsEvidenceRequiredForRelease = False,
      rid_ConsensusMethod = [], rid_MinVerifiersForConsensus = 0\<rparr>"

definition release_with_instructions :: ReleaseInstructionDetail where
  "release_with_instructions =
     release_without_instructions\<lparr>rid_Instructions := replicate 60 (CHR ''x'')\<rparr>"

text \<open>
  A stand-in for the library: every request string decodes to the request \<open>req\<close>, every
  value serialises to the empty byte string, and every digest is 0, whose base64 form is
  \<open>example_hash\<close>.
\<close>

definition example_lib :: "'r \<Rightarrow> (ImmutableContract, 'r) GoLib" where
  "example_lib req =
     \<lparr>json_Marshal = (\<lambda>v. Inr []), json_Compact = (\<lambda>bs. Inr bs), sha256_Sum = (\<lambda>bs. 0),
      base64_RawStdDecode = (\<lambda>s. Inr []), json_Unmarshal = (\<lambda>bs. Inr req)\<rparr>"

definition example_ic :: ImmutableContract where
  "example_ic = example_contract two_signatories [package_of ''c101'', package_of ''c102'']"

definition example_new_req :: NewAssetReq where
  "example_new_req =
     \<lparr>nar_ImmutableContract = example_ic, nar_ImmutableContractHash = example_hash,
      nar_NotaryOU = []\<rparr>"

definition example_void_req :: VoidAssetReq where
  "example_void_req =
     \<lparr>var_ImmutableContract = example_ic, var_ImmutableContractHash = example_hash,
      var_ContractId = 42, var_PackageId = 5, var_PackageHash = ''pkg''\<rparr>"

text \<open>The same contract with schema version 2 in the block and 1 in its definition.\<close>

definition mismatched_ic :: ImmutableContract where
  "mismatched_ic =
     example_ic\<lparr>ic_Contract := (example_block two_signatories)\<lparr>cb_SchemaVersion := 2\<rparr>\<rparr>"

definition mismatched_new_req :: NewAssetReq where
  "mismatched_new_req = example_new_req\<lparr>nar_ImmutableContract := mismatched_ic\<rparr>"

definition mismatched_void_req :: VoidAssetReq where
  "mismatched_void_req = example_void_req\<lparr>var_ImmutableContract := mismatched_ic\<rparr>"

definition active_asset :: Contract where
  "active_asset =
     \<lparr>c_ContractId = 42, c_Version = 1, c_ContractHash = example_hash,
      c_CreatedAt = ''2024-01-01T00:00:00Z'', c_UpdatedAt = ''2024-01-01T00:00:00Z'',
      c_State = ''active'', c_Changes = []\<rparr>"

definition voided_asset :: Contract where
  "voided_asset =
     \<lparr>c_ContractId = 42, c_Version = 1, c_ContractHash = example_hash,
      c_CreatedAt = ''2024-01-01T00:00:00Z'', c_UpdatedAt = ''2024-06-01T12:00:00Z'',
      c_State = ''voided'',
      c_Changes =
        [\<lparr>ch_PackageID = 5, ch_PackageHash = ''pkg'', ch_PackageDate = ''2024-06-01T12:00:00Z'',
          ch_CallerSdn = [], ch_Action = ''void'', ch_NewState = ''voided''\<rparr>]\<rparr>"

definition expired_asset :: Contract where
  "expired_asset =
     \<lparr>c_ContractId = 42, c_Version = 1, c_ContractHash = example_hash,
      c_CreatedAt = ''2024-01-01T00:00:00Z'', c_UpdatedAt = ''2024-06-01T12:00:00Z'',
      c_State = ''expired'',
      c_Changes =
        [\<lparr>ch_PackageID = 5, ch_PackageHash = ''pkg'', ch_PackageDate = ''2024-06-01T12:00:00Z'',
          ch_CallerSdn = [], ch_Action = ''expire'', ch_NewState = ''expired''\<rparr>]\<rparr>"

definition created_asset :: "int64 \<Rightarrow> Contract" where
  "created_asset version =
     \<lparr>c_ContractId = 42, c_Version = version, c_ContractHash = example_hash,
      c_CreatedAt = ''2024-06-01T12:00:00Z'', c_UpdatedAt = ''2024-06-01T12:00:00Z'',
      c_State = ''active'', c_Changes = []\<rparr>"

definition empty_ctx :: TransactionContext where
  "empty_ctx =
     \<lparr>world = Map.empty, writes = [], getStateErr = None, putStateErr = None,
      mspID = Inr ''Org1MSP'', txID = ''tx1'', now = ''2024-06-01T12:00:00Z''\<rparr>"

definition ctx_with :: "Contract \<Rightarrow> TransactionContext" where
  "ctx_with asset = empty_ctx\<lparr>world := [''42'' \<mapsto> Inr asset]\<rparr>"

definition ctx_after :: "TransactionContext \<Rightarrow> Contract \<Rightarrow> TransactionContext" where
  "ctx_after ctx asset =
     ctx\<lparr>world := (world ctx)(''42'' \<mapsto> Inr asset), writes := writes ctx @ [(''42'', asset)]\<rparr>"

section \<open>Role membership\<close>

lemma IsRole_Some:
  "IsRole (Some p) role = (role \<noteq> [] \<and> (\<exists>rs. cp_Roles p = role # rs))"
  by (cases "cp_Roles p") (auto simp: IsRole_def)

text \<open>
  C2. The claim: for a non-empty role string, \<open>IsRole\<close> answers membership of the role in
  the participant's whole role list, whatever its position. The source returns from inside
  the loop in the first iteration, so it compares the first role only: for the participant
  with roles \<open>[creator, signatory]\<close> the role \<open>signatory\<close> is a member of the list and
  \<open>IsRole\<close> returns false.
\<close>

theorem IsRole_second_role_missed:
  "Signatory \<noteq> [] \<and> Signatory \<in> set (cp_Roles creator_and_signatory)
     \<and> IsRole (Some creator_and_signatory) Signatory = False"
  by (simp add: IsRole_def creator_and_signatory_def participant_of_def Signatory_def
      Creator_def)

section \<open>Nil receivers\<close>

text \<open>
  C10. \<open>ValidateSignaturesComplete\<close> on a nil receiver returns the error
  "contract container is nil for method: ValidateSignaturesComplete", which names the
  method, and \<open>GetSignatoryCountFromParticipants\<close> on a nil receiver returns 0.
\<close>

theorem nil_receivers:
  "ValidateSignaturesComplete None
     = Some ''contract container is nil for method: ValidateSignaturesComplete''
   \<and> GetSignatoryCountFromParticipants None = 0"
  by (simp add: ValidateSignaturesComplete_def GetSignatoryCountFromParticipants_def)

section \<open>Release instructions\<close>

text \<open>
  C8 as stated: every \<open>ReleaseInstructionDetail\<close> with \<open>IsCustomRelease\<close> false and
  \<open>StandardReleaseTemplateId\<close> 0 is rejected with "invalid standard release template id".
  The length of the instructions is checked first: the detail with no instructions, not
  custom, template id 0 is rejected with "invalid instructions".
\<close>

theorem release_template_counterexample:
  "\<not> rid_IsCustomRelease release_without_instructions
   \<and> rid_StandardReleaseTemplateId release_without_instructions = 0
   \<and> ReleaseInstructionDetail_Validate release_without_instructions False
       \<noteq> Some ''invalid standard release template id''"
  by (simp add: ReleaseInstructionDetail_Validate_def release_without_instructions_def
      InstructionMinLength_def)

text \<open>
  C8 as amended: a \<open>ReleaseInstructionDetail\<close> whose instructions have at least
  \<open>InstructionMinLength\<close> (60) bytes, with \<open>IsCustomRelease\<close> false and
  \<open>StandardReleaseTemplateId\<close> 0, is rejected with "invalid standard release template id",
  whatever \<open>evidenceRequired\<close> is.
\<close>

theorem release_template_id_zero:
  assumes "InstructionMinLength \<le> length (rid_Instructions rid)"
    and "\<not> rid_IsCustomRelease rid"
    and "rid_StandardReleaseTemplateId rid = 0"
  shows "ReleaseInstructionDetail_Validate rid evidenceRequired
           = Some ''invalid standard release template id''"
  using assms by (simp add: ReleaseInstructionDetail_Validate_def)

theorem release_template_id_zero_witness:
  "InstructionMinLength \<le> length (rid_Instructions release_with_instructions)
   \<and> \<not> rid_IsCustomRelease release_with_instructions
   \<and> rid_StandardReleaseTemplateId release_with_instructions = 0
   \<and> ReleaseInstructionDetail_Validate release_with_instructions True
       = Some ''invalid standard release template id''"
proof -
  have len: "InstructionMinLength \<le> length (rid_Instructions release_with_instructions)"
    by (simp add: release_with_instructions_def InstructionMinLength_def)
  have std: "\<not> rid_IsCustomRelease release_with_instructions"
    by (simp add: release_with_instructions_def release_without_instructions_def)
  have zero: "rid_StandardReleaseTemplateId release_with_instructions = 0"
    by (simp add: release_with_instructions_def release_without_instructions_def)
  from release_template_id_zero [OF len std zero, of True] len std zero
  show ?thesis by simp
qed

section \<open>Signature completeness\<close>

lemma example_ic_complete: "ValidateSignaturesComplete (Some example_ic) = None"
  by (simp add: ValidateSignaturesComplete_def GetSignatoryCountFromParticipants_def
      example_ic_def example_contract_def example_block_def two_signatories_def
      participant_of_def package_of_def IsRole_def Signatory_def example_hash_def
      check_matching_package_def IsZero_def SHA256_HASH_BASE64_LENGTH_def
      SignPackageMethodId_Embedded_def)

text \<open>
  The variable \<open>found\<close> is set by the first matching package and never reset for the next
  participant: with signatories \<open>c101\<close> and \<open>c102\<close> and the two packages of \<open>c101\<close> and of
  the stranger \<open>c999\<close>, the counts agree (2 and 2), no package carries the user id
  \<open>c102\<close>, and the method returns \<open>nil\<close>.
\<close>

lemma found_is_never_reset:
  "IsRole (Some (participant_of ''c102'' [Signatory])) Signatory
   \<and> participant_of ''c102'' [Signatory] \<in> set (cb_Participants (ic_Contract contract_missing_c102))
   \<and> GetSignatoryCountFromParticipants (Some (ic_Contract contract_missing_c102)) = 2
   \<and> length (cs_Signatures (ic_ContractSignatures contract_missing_c102)) = 2
   \<and> ''c102'' \<notin> set (map (\<lambda>sp. sp_UserId (scs_ContractSignaturePackage sp))
                          (cs_Signatures (ic_ContractSignatures contract_missing_c102)))
   \<and> ValidateSignaturesComplete (Some contract_missing_c102) = None"
  by (simp add: ValidateSignaturesComplete_def GetSignatoryCountFromParticipants_def
      contract_missing_c102_def example_contract_def example_block_def two_signatories_def
      participant_of_def package_of_def IsRole_def Signatory_def example_hash_def
      check_matching_package_def IsZero_def SHA256_HASH_BASE64_LENGTH_def
      SignPackageMethodId_Embedded_def)

text \<open>
  C1 as stated: \<open>ValidateSignaturesComplete\<close> succeeds only if there are as many packages
  as signatories and every signatory has a package with his user id, and when the package
  of a signatory is absent the error names that signatory's user id. The number of
  packages is compared with the number of signatories before any package is looked at:
  with signatories \<open>c101\<close> and \<open>c102\<close> and the one package of \<open>c101\<close>, the package of
  \<open>c102\<close> is absent and the error is the one about the numbers, which names no user.
\<close>

theorem absent_package_counterexample:
  "IsRole (Some (participant_of ''c102'' [Signatory])) Signatory
   \<and> participant_of ''c102'' [Signatory] \<in> set (cb_Participants (ic_Contract contract_one_package))
   \<and> ''c102'' \<notin> set (map (\<lambda>sp. sp_UserId (scs_ContractSignaturePackage sp))
                          (cs_Signatures (ic_ContractSignatures contract_one_package)))
   \<and> ValidateSignaturesComplete (Some contract_one_package)
       = Some ''contract signatures block does not have the same number of signature packages as there are signatories''"
  by (simp add: ValidateSignaturesComplete_def GetSignatoryCountFromParticipants_def
      contract_one_package_def example_contract_def example_block_def two_signatories_def
      participant_of_def package_of_def IsRole_def Signatory_def example_hash_def
      SHA256_HASH_BASE64_LENGTH_def)

text \<open>
  C1 as amended: \<open>ValidateSignaturesComplete\<close> succeeds only if there is at least one
  signature package and the number of packages is the number of signatories that
  \<open>GetSignatoryCountFromParticipants\<close> counts; and when the contract hash of the
  signatures block has 44 characters and the two numbers differ, as after the removal of
  one signatory's package, it returns the error about missing packages if no package is
  left and the error about the numbers otherwise. Neither error names a user.
\<close>

theorem signature_count_gate:
  "(ValidateSignaturesComplete (Some c) = None \<longrightarrow>
      cs_Signatures (ic_ContractSignatures c) \<noteq> []
      \<and> length (cs_Signatures (ic_ContractSignatures c))
          = GetSignatoryCountFromParticipants (Some (ic_Contract c)))
   \<and> (length (cs_ContractHash (ic_ContractSignatures c)) = 44
      \<and> length (cs_Signatures (ic_ContractSignatures c))
          \<noteq> GetSignatoryCountFromParticipants (Some (ic_Contract c)) \<longrightarrow>
      ValidateSignaturesComplete (Some c) =
        Some (if cs_Signatures (ic_ContractSignatures c) = []
              then ''contract signatures block does not have any signature packages set''
              else ''contract signatures block does not have the same number of signature packages as there are signatories''))"
  by (simp add: ValidateSignaturesComplete_def Let_def SHA256_HASH_BASE64_LENGTH_def)

theorem signature_count_gate_witness:
  "ValidateSignaturesComplete (Some example_ic) = None
   \<and> length (cs_Signatures (ic_ContractSignatures example_ic)) = 2
   \<and> GetSignatoryCountFromParticipants (Some (ic_Contract example_ic)) = 2
   \<and> length (cs_ContractHash (ic_ContractSignatures contract_one_package)) = 44
   \<and> length (cs_Signatures (ic_ContractSignatures contract_one_package)) = 1
   \<and> GetSignatoryCountFromParticipants (Some (ic_Contract contract_one_package)) = 2
   \<and> ValidateSignaturesComplete (Some contract_one_package)
       = Some ''contract signatures block does not have the same number of signature packages as there are signatories''"
proof -
  have sigs: "length (cs_Signatures (ic_ContractSignatures example_ic)) = 2"
    by (simp add: example_ic_def example_contract_def)
  have one: "length (cs_ContractHash (ic_ContractSignatures contract_one_package)) = 44"
      "length (cs_Signatures (ic_ContractSignatures contract_one_package)) = 1"
      "GetSignatoryCountFromParticipants (Some (ic_Contract contract_one_package)) = 2"
    by (simp_all add: contract_one_package_def example_contract_def example_hash_def
        GetSignatoryCountFromParticipants_def example_block_def two_signatories_def
        participant_of_def IsRole_def Signatory_def)
  from signature_count_gate [of example_ic] example_ic_complete sigs
  have count: "GetSignatoryCountFromParticipants (Some (ic_Contract example_ic)) = 2"
    by simp
  from signature_count_gate [of contract_one_package] one
  have "ValidateSignaturesComplete (Some contract_one_package)
       = Some ''contract signatures block does not have the same number of signature packages as there are signatories''"
    by auto
  with example_ic_complete sigs count one show ?thesis by simp
qed

section \<open>The digest\<close>

lemma length_EncodeToString: "length (EncodeToString bs) = 4 * ((length bs + 2) div 3)"
proof (induction bs rule: EncodeToString.induct)
  case (1 a b c rest)
  have "(length (a # b # c # rest) + 2) div 3 = Suc ((length rest + 2) div 3)"
    by simp
  with 1 show ?case by simp
qed simp_all

lemma length_Sum: "length (Sum w) = 32"
  by (simp add: Sum_def)

lemma length_digest: "length (EncodeToString (Sum w)) = 44"
  by (simp add: length_EncodeToString length_Sum)

lemma example_digest: "EncodeToString (Sum 0) = example_hash"
  by (simp add: Sum_def upt_conv_Cons enc64_def encodeStd_def example_hash_def)

lemma example_JsonHash: "JsonHashS256 (example_lib req) (Some v) = Inr example_hash"
  by (simp add: JsonHashS256_def example_lib_def example_digest)

text \<open>
  C7. \<open>JsonHashS256\<close> of a nil input is the error "data is nil". For an input that
  \<open>json.Marshal\<close> serialises and \<open>json.Compact\<close> compacts, the result is the padded
  standard base64 encoding of the SHA-256 digest of the compacted bytes. Every string it
  returns has 44 characters, and the string is determined by the input: two results for
  the same value are equal.
\<close>

theorem JsonHashS256_digest:
  "JsonHashS256 lib None = Inl ''data is nil''
   \<and> (\<forall>v bytesData bb.
        json_Marshal lib v = Inr bytesData \<and> json_Compact lib bytesData = Inr bb \<longrightarrow>
          JsonHashS256 lib (Some v) = Inr (EncodeToString (Sum (sha256_Sum lib bb))))
   \<and> (\<forall>v s. JsonHashS256 lib (Some v) = Inr s \<longrightarrow> length s = 44)
   \<and> (\<forall>v s s'. JsonHashS256 lib (Some v) = Inr s \<and> JsonHashS256 lib (Some v) = Inr s'
         \<longrightarrow> s = s')"
  by (auto simp: JsonHashS256_def length_digest split: sum.splits)

theorem JsonHashS256_digest_witness:
  "json_Marshal (example_lib example_new_req) example_ic = Inr []
   \<and> json_Compact (example_lib example_new_req) [] = Inr []
   \<and> JsonHashS256 (example_lib example_new_req) (Some example_ic)
       = Inr (EncodeToString (Sum (sha256_Sum (example_lib example_new_req) [])))
   \<and> JsonHashS256 (example_lib example_new_req) (Some example_ic) = Inr example_hash
   \<and> length example_hash = 44"
proof -
  let ?lib = "example_lib example_new_req"
  have m: "json_Marshal ?lib example_ic = Inr []" and c: "json_Compact ?lib [] = Inr []"
    by (simp_all add: example_lib_def)
  have run: "JsonHashS256 ?lib (Some example_ic) = Inr example_hash"
    by (rule example_JsonHash)
  from JsonHashS256_digest [of ?lib] m c
  have "JsonHashS256 ?lib (Some example_ic) = Inr (EncodeToString (Sum (sha256_Sum ?lib [])))"
    by blast
  moreover from JsonHashS256_digest [of ?lib] run have "length example_hash = 44"
    by blast
  ultimately show ?thesis using m c run by simp
qed

section \<open>The operations, step by step\<close>

lemma Sprint_42: "Sprint 42 = ''42''"
  by (simp add: Sprint_def decimal.simps)

lemma ReadAsset_Inr:
  "ReadAsset ctx key = Inr asset \<Longrightarrow> world ctx key = Some (Inr asset)"
  by (auto simp: ReadAsset_def GetState_def split: option.splits sum.splits)

lemma PutState_Inr:
  "PutState ctx key asset = Inr ctx' \<Longrightarrow>
     ctx' = ctx\<lparr>world := (world ctx)(key \<mapsto> Inr asset), writes := writes ctx @ [(key, asset)]\<rparr>"
  by (auto simp: PutState_def split: option.splits)

text \<open>An operation that returns an error returns the context it was given.\<close>

lemma CreateAsset_Inl: "CreateAsset lib ctx data = (Inl e, ctx') \<Longrightarrow> ctx' = ctx"
  by (auto simp: CreateAsset_def Let_def split: sum.splits option.splits if_splits)

lemma VoidAsset_Inl: "VoidAsset lib ctx data = (Inl e, ctx') \<Longrightarrow> ctx' = ctx"
  by (auto simp: VoidAsset_def Let_def split: sum.splits option.splits if_splits)

lemma ExpireAsset_Inl: "ExpireAsset lib ctx data = (Inl e, ctx') \<Longrightarrow> ctx' = ctx"
  by (auto simp: ExpireAsset_def Let_def split: sum.splits option.splits if_splits)

text \<open>A failing check of a transition makes it return an error.\<close>

lemma VoidAsset_fail:
  "\<not> transition_checks lib ctx data \<Longrightarrow> \<exists>e. VoidAsset lib ctx data = (Inl e, ctx)"
  by (auto simp: VoidAsset_def transition_checks_def Let_def split: sum.splits option.splits)

lemma ExpireAsset_fail:
  "\<not> transition_checks lib ctx data \<Longrightarrow> \<exists>e. ExpireAsset lib ctx data = (Inl e, ctx)"
  by (auto simp: ExpireAsset_def transition_checks_def Let_def split: sum.splits option.splits)

text \<open>
  A successful operation has written once. A successful transition has passed its checks;
  a successful \<open>CreateAsset\<close> has passed the checks of the specification exactly when the
  schema versions happen to agree.
\<close>

lemma CreateAsset_Inr:
  "CreateAsset lib ctx data = (Inr r, ctx') \<Longrightarrow> \<exists>k v. writes ctx' = writes ctx @ [(k, v)]"
  by (auto simp: CreateAsset_def PutState_def Let_def
      split: sum.splits option.splits if_splits)

lemma CreateAsset_Inr_checks:
  assumes "CreateAsset lib ctx data = (Inr r, ctx')" and "ParseRequest lib data = Inr cc"
  shows "CreateAsset_checks lib ctx data
           = (cb_SchemaVersion (ic_Contract (nar_ImmutableContract cc))
                = cd_SchemaVersion (cb_Definition (ic_Contract (nar_ImmutableContract cc))))"
  using assms
  by (auto simp: CreateAsset_def CreateAsset_checks_def Let_def
      split: sum.splits option.splits if_splits)

lemma VoidAsset_Inr:
  "VoidAsset lib ctx data = (Inr r, ctx') \<Longrightarrow>
     transition_checks lib ctx data \<and> (\<exists>k v. writes ctx' = writes ctx @ [(k, v)])"
  by (auto simp: VoidAsset_def transition_checks_def PutState_def Let_def
      split: sum.splits option.splits if_splits)

lemma ExpireAsset_Inr:
  "ExpireAsset lib ctx data = (Inr r, ctx') \<Longrightarrow>
     transition_checks lib ctx data \<and> (\<exists>k v. writes ctx' = writes ctx @ [(k, v)])"
  by (auto simp: ExpireAsset_def transition_checks_def PutState_def Let_def
      split: sum.splits option.splits if_splits)

text \<open>What a successful operation has parsed, read and written.\<close>

lemma CreateAsset_parsed:
  assumes "CreateAsset lib ctx data = (Inr r, ctx')"
  obtains cc where "ParseRequest lib data = Inr cc"
  using assms by (cases "ParseRequest lib data") (auto simp: CreateAsset_def)

lemma VoidAsset_parsed:
  assumes "VoidAsset lib ctx data = (Inr r, ctx')"
  obtains cc where "ParseRequest lib data = Inr cc"
  using assms by (cases "ParseRequest lib data") (auto simp: VoidAsset_def)

lemma ExpireAsset_parsed:
  assumes "ExpireAsset lib ctx data = (Inr r, ctx')"
  obtains cc where "ParseRequest lib data = Inr cc"
  using assms by (cases "ParseRequest lib data") (auto simp: ExpireAsset_def)

lemma CreateAsset_put:
  assumes "CreateAsset lib ctx data = (Inr r, ctx')" and "ParseRequest lib data = Inr cc"
  shows "PutState ctx (Sprint (cb_ContractID (ic_Contract (nar_ImmutableContract cc))))
           \<lparr>c_ContractId = cb_ContractID (ic_Contract (nar_ImmutableContract cc)),
            c_Version = cb_SchemaVersion (ic_Contract (nar_ImmutableContract cc)),
            c_ContractHash = nar_ImmutableContractHash cc, c_CreatedAt = now ctx,
            c_UpdatedAt = now ctx, c_State = ContractStateActive, c_Changes = []\<rparr> = Inr ctx'"
  using assms
  by (auto simp: CreateAsset_def Let_def split: sum.splits option.splits if_splits)

lemma VoidAsset_read:
  assumes "VoidAsset lib ctx data = (Inr r, ctx')" and "ParseRequest lib data = Inr cc"
  obtains asset where "ReadAsset ctx (Sprint (var_ContractId cc)) = Inr asset"
  using assms
  by (cases "ReadAsset ctx (Sprint (var_ContractId cc))")
    (auto simp: VoidAsset_def split: sum.splits option.splits if_splits)

lemma ExpireAsset_read:
  assumes "ExpireAsset lib ctx data = (Inr r, ctx')" and "ParseRequest lib data = Inr cc"
  obtains asset where "ReadAsset ctx (Sprint (var_ContractId cc)) = Inr asset"
  using assms
  by (cases "ReadAsset ctx (Sprint (var_ContractId cc))")
    (auto simp: ExpireAsset_def split: sum.splits option.splits if_splits)

lemma VoidAsset_put:
  assumes "VoidAsset lib ctx data = (Inr r, ctx')" and "ParseRequest lib data = Inr cc"
    and "ReadAsset ctx (Sprint (var_ContractId cc)) = Inr asset"
  shows "PutState ctx (Sprint (c_ContractId asset))
           (asset\<lparr>c_State := ContractStateVoided, c_UpdatedAt := now ctx,
              c_Changes := c_Changes asset @
                [\<lparr>ch_PackageID = var_PackageId cc, ch_PackageHash = var_PackageHash cc,
                  ch_PackageDate = now ctx, ch_CallerSdn = [], ch_Action = ''void'',
                  ch_NewState = ContractStateVoided\<rparr>]\<rparr>) = Inr ctx'"
  using assms
  by (auto simp: VoidAsset_def Let_def split: sum.splits option.splits if_splits)

lemma ExpireAsset_put:
  assumes "ExpireAsset lib ctx data = (Inr r, ctx')" and "ParseRequest lib data = Inr cc"
    and "ReadAsset ctx (Sprint (var_ContractId cc)) = Inr asset"
  shows "PutState ctx (Sprint (var_ContractId cc))
           (asset\<lparr>c_State := ContractStateExpired, c_UpdatedAt := now ctx,
              c_Changes := c_Changes asset @
                [\<lparr>ch_PackageID = var_PackageId cc, ch_PackageHash = var_PackageHash cc,
                  ch_PackageDate = now ctx, ch_CallerSdn = [], ch_Action = ''expire'',
                  ch_NewState = ContractStateExpired\<rparr>]\<rparr>) = Inr ctx'"
  using assms
  by (auto simp: ExpireAsset_def Let_def split: sum.splits option.splits if_splits)

text \<open>The result of each operation on a request that passes the checks on the document.\<close>

lemma CreateAsset_run:
  assumes "ParseRequest lib data = Inr cc"
    and "JsonHashS256 lib (Some (nar_ImmutableContract cc)) = Inr (nar_ImmutableContractHash cc)"
    and "ContractBlock_Validate (ic_Contract (nar_ImmutableContract cc)) = None"
    and "getStateErr ctx = None" and "putStateErr ctx = None"
  shows "CreateAsset lib ctx data =
     (if world ctx (Sprint (cb_ContractID (ic_Contract (nar_ImmutableContract cc)))) \<noteq> None
      then (Inl (''the contract '' @ Sprint (cb_ContractID (ic_Contract (nar_ImmutableContract cc)))
                   @ '' already exists''), ctx)
      else (Inr \<lparr>car_ContractId = cb_ContractID (ic_Contract (nar_ImmutableContract cc)),
                 car_TxId = txID ctx\<rparr>,
            ctx\<lparr>world := (world ctx)
                   (Sprint (cb_ContractID (ic_Contract (nar_ImmutableContract cc))) \<mapsto>
                      Inr \<lparr>c_ContractId = cb_ContractID (ic_Contract (nar_ImmutableContract cc)),
                           c_Version = cb_SchemaVersion (ic_Contract (nar_ImmutableContract cc)),
                           c_ContractHash = nar_ImmutableContractHash cc,
                           c_CreatedAt = now ctx, c_UpdatedAt = now ctx,
                           c_State = ''active'', c_Changes = []\<rparr>),
                writes := writes ctx @
                   [(Sprint (cb_ContractID (ic_Contract (nar_ImmutableContract cc))),
                     \<lparr>c_ContractId = cb_ContractID (ic_Contract (nar_ImmutableContract cc)),
                      c_Version = cb_SchemaVersion (ic_Contract (nar_ImmutableContract cc)),
                      c_ContractHash = nar_ImmutableContractHash cc,
                      c_CreatedAt = now ctx, c_UpdatedAt = now ctx,
                      c_State = ''active'', c_Changes = []\<rparr>)]\<rparr>))"
  using assms
  by (simp add: CreateAsset_def AssetExists_def GetState_def PutState_def Let_def
      ContractStateActive_def)

lemma VoidAsset_run:
  assumes "ParseRequest lib data = Inr cc"
    and "JsonHashS256 lib (Some (var_ImmutableContract cc)) = Inr (var_ImmutableContractHash cc)"
    and "cb_SchemaVersion (ic_Contract (var_ImmutableContract cc))
           = cd_SchemaVersion (cb_Definition (ic_Contract (var_ImmutableContract cc)))"
    and "ContractBlock_Validate (ic_Contract (var_ImmutableContract cc)) = None"
    and "mspID ctx = Inr org"
    and "getStateErr ctx = None" and "putStateErr ctx = None"
    and "world ctx (Sprint (var_ContractId cc)) = Some (Inr asset)"
  shows "VoidAsset lib ctx data =
     (if c_State asset = ''voided'' then (Inl ''contract already voided'', ctx)
      else if c_State asset = ''expired'' then (Inl ''contract expired, cannot void'', ctx)
      else if c_State asset = ''released'' then (Inl ''contract released, cannot void'', ctx)
      else (Inr \<lparr>vr_TxId = txID ctx\<rparr>,
            ctx\<lparr>world := (world ctx)
                   (Sprint (c_ContractId asset) \<mapsto>
                      Inr (asset\<lparr>c_State := ''voided'', c_UpdatedAt := now ctx,
                                 c_Changes := c_Changes asset @
                                   [\<lparr>ch_PackageID = var_PackageId cc,
                                     ch_PackageHash = var_PackageHash cc,
                                     ch_PackageDate = now ctx, ch_CallerSdn = [],
                                     ch_Action = ''void'', ch_NewState = ''voided''\<rparr>]\<rparr>)),
                writes := writes ctx @
                   [(Sprint (c_ContractId asset),
                     asset\<lparr>c_State := ''voided'', c_UpdatedAt := now ctx,
                           c_Changes := c_Changes asset @
                             [\<lparr>ch_PackageID = var_PackageId cc,
                               ch_PackageHash = var_PackageHash cc,
                               ch_PackageDate = now ctx, ch_CallerSdn = [],
                               ch_Action = ''void'', ch_NewState = ''voided''\<rparr>]\<rparr>)]\<rparr>))"
  using assms
  by (simp add: VoidAsset_def ReadAsset_def GetState_def PutState_def Let_def
      ContractStateVoided_def ContractStateExpired_def ContractStateReleased_def)

lemma ExpireAsset_run:
  assumes "ParseRequest lib data = Inr cc"
    and "JsonHashS256 lib (Some (var_ImmutableContract cc)) = Inr (var_ImmutableContractHash cc)"
    and "cb_SchemaVersion (ic_Contract (var_ImmutableContract cc))
           = cd_SchemaVersion (cb_Definition (ic_Contract (var_ImmutableContract cc)))"
    and "ContractBlock_Validate (ic_Contract (var_ImmutableContract cc)) = None"
    and "getStateErr ctx = None" and "putStateErr ctx = None"
    and "world ctx (Sprint (var_ContractId cc)) = Some (Inr asset)"
  shows "ExpireAsset lib ctx data =
     (if c_State asset = ''voided'' then (Inl ''contract voided, cannot expire'', ctx)
      else if c_State asset = ''expired'' then (Inl ''contract already expired'', ctx)
      else if c_State asset = ''released'' then (Inl ''contract released, cannot expire'', ctx)
      else (Inr \<lparr>er_TxId = txID ctx\<rparr>,
            ctx\<lparr>world := (world ctx)
                   (Sprint (var_ContractId cc) \<mapsto>
                      Inr (asset\<lparr>c_State := ''expired'', c_UpdatedAt := now ctx,
                                 c_Changes := c_Changes asset @
                                   [\<lparr>ch_PackageID = var_PackageId cc,
                                     ch_PackageHash = var_PackageHash cc,
                                     ch_PackageDate = now ctx, ch_CallerSdn = [],
                                     ch_Action = ''expire'', ch_NewState = ''expired''\<rparr>]\<rparr>)),
                writes := writes ctx @
                   [(Sprint (var_ContractId cc),
                     asset\<lparr>c_State := ''expired'', c_UpdatedAt := now ctx,
                           c_Changes := c_Changes asset @
                             [\<lparr>ch_PackageID = var_PackageId cc,
                               ch_PackageHash = var_PackageHash cc,
                               ch_PackageDate = now ctx, ch_CallerSdn = [],
                               ch_Action = ''expire'', ch_NewState = ''expired''\<rparr>]\<rparr>)]\<rparr>))"
  using assms
  by (simp add: ExpireAsset_def ReadAsset_def GetState_def PutState_def Let_def
      ContractStateVoided_def ContractStateExpired_def ContractStateReleased_def)

section \<open>The ledger invariant\<close>

lemma ledger_wf_empty: "ledger_wf Map.empty"
  by (simp add: ledger_wf_def)

lemma ledger_wf_PutState:
  assumes "ledger_wf (world ctx)" and "PutState ctx key c = Inr ctx'"
    and "key = Sprint (c_ContractId c)" and "c_State c \<in> set lifecycle_states"
  shows "ledger_wf (world ctx')"
  using assms(1,3,4) PutState_Inr [OF assms(2)] by (simp add: ledger_wf_def)

lemma CreateAsset_keeps_wf:
  assumes wf: "ledger_wf (world ctx)" and run: "CreateAsset lib ctx data = (res, ctx')"
  shows "ledger_wf (world ctx')"
proof (cases res)
  case (Inl e)
  with wf run show ?thesis by (auto dest: CreateAsset_Inl)
next
  case (Inr r)
  with run have ok: "CreateAsset lib ctx data = (Inr r, ctx')" by simp
  then obtain cc where parse: "ParseRequest lib data = Inr cc"
    by (rule CreateAsset_parsed)
  show ?thesis
    using ledger_wf_PutState [OF wf CreateAsset_put [OF ok parse]]
    by (simp add: lifecycle_states_def)
qed

lemma VoidAsset_keeps_wf:
  assumes wf: "ledger_wf (world ctx)" and run: "VoidAsset lib ctx data = (res, ctx')"
  shows "ledger_wf (world ctx')"
proof (cases res)
  case (Inl e)
  with wf run show ?thesis by (auto dest: VoidAsset_Inl)
next
  case (Inr r)
  with run have ok: "VoidAsset lib ctx data = (Inr r, ctx')" by simp
  then obtain cc where parse: "ParseRequest lib data = Inr cc"
    by (rule VoidAsset_parsed)
  from ok parse obtain asset where read: "ReadAsset ctx (Sprint (var_ContractId cc)) = Inr asset"
    by (rule VoidAsset_read)
  show ?thesis
    using ledger_wf_PutState [OF wf VoidAsset_put [OF ok parse read]]
    by (simp add: lifecycle_states_def)
qed

lemma ExpireAsset_keeps_wf:
  assumes wf: "ledger_wf (world ctx)" and run: "ExpireAsset lib ctx data = (res, ctx')"
  shows "ledger_wf (world ctx')"
proof (cases res)
  case (Inl e)
  with wf run show ?thesis by (auto dest: ExpireAsset_Inl)
next
  case (Inr r)
  with run have ok: "ExpireAsset lib ctx data = (Inr r, ctx')" by simp
  then obtain cc where parse: "ParseRequest lib data = Inr cc"
    by (rule ExpireAsset_parsed)
  from ok parse obtain asset where read: "ReadAsset ctx (Sprint (var_ContractId cc)) = Inr asset"
    by (rule ExpireAsset_read)
  note put = ExpireAsset_put [OF ok parse read]
  from read have "world ctx (Sprint (var_ContractId cc)) = Some (Inr asset)"
    by (rule ReadAsset_Inr)
  with wf have key: "Sprint (var_ContractId cc) = Sprint (c_ContractId asset)"
    by (auto simp: ledger_wf_def)
  show ?thesis
    using ledger_wf_PutState [OF wf put] key
    by (simp add: lifecycle_states_def)
qed

section \<open>The example requests and ledgers\<close>

lemma example_parse: "ParseRequest (example_lib req) ''request'' = Inr req"
  by (simp add: ParseRequest_def example_lib_def)

lemma example_valid: "ContractBlock_Validate (example_block ps) = None"
  by (simp add: ContractBlock_Validate_def example_block_def example_definition_def
      example_options_def)

lemma mismatched_valid:
  "ContractBlock_Validate ((example_block ps)\<lparr>cb_SchemaVersion := 2\<rparr>) = None"
  by (simp add: ContractBlock_Validate_def example_block_def example_definition_def
      example_options_def)

lemma example_ic_block: "ic_Contract example_ic = example_block two_signatories"
  by (simp add: example_ic_def example_contract_def)

lemma example_new_req_facts:
  "JsonHashS256 (example_lib example_new_req) (Some (nar_ImmutableContract example_new_req))
     = Inr (nar_ImmutableContractHash example_new_req)"
  "ContractBlock_Validate (ic_Contract (nar_ImmutableContract example_new_req)) = None"
  "cb_ContractID (ic_Contract (nar_ImmutableContract example_new_req)) = 42"
  "cb_SchemaVersion (ic_Contract (nar_ImmutableContract example_new_req)) = 1"
  "nar_ImmutableContractHash example_new_req = example_hash"
  by (simp_all add: example_JsonHash example_new_req_def example_ic_block example_valid)
    (simp_all add: example_block_def)

lemma mismatched_new_req_facts:
  "JsonHashS256 (example_lib mismatched_new_req) (Some (nar_ImmutableContract mismatched_new_req))
     = Inr (nar_ImmutableContractHash mismatched_new_req)"
  "ContractBlock_Validate (ic_Contract (nar_ImmutableContract mismatched_new_req)) = None"
  "cb_ContractID (ic_Contract (nar_ImmutableContract mismatched_new_req)) = 42"
  "cb_SchemaVersion (ic_Contract (nar_ImmutableContract mismatched_new_req)) = 2"
  "cd_SchemaVersion (cb_Definition (ic_Contract (nar_ImmutableContract mismatched_new_req))) = 1"
  "nar_ImmutableContractHash mismatched_new_req = example_hash"
  by (simp_all add: example_JsonHash mismatched_new_req_def example_new_req_def
      mismatched_ic_def mismatched_valid)
    (simp_all add: example_block_def example_definition_def)

lemma example_void_req_facts:
  "JsonHashS256 (example_lib example_void_req) (Some (var_ImmutableContract example_void_req))
     = Inr (var_ImmutableContractHash example_void_req)"
  "cb_SchemaVersion (ic_Contract (var_ImmutableContract example_void_req))
     = cd_SchemaVersion (cb_Definition (ic_Contract (var_ImmutableContract example_void_req)))"
  "ContractBlock_Validate (ic_Contract (var_ImmutableContract example_void_req)) = None"
  by (simp_all add: example_JsonHash example_void_req_def example_ic_block example_valid)
    (simp_all add: example_block_def example_definition_def)

lemma example_void_req_fields:
  "Sprint (var_ContractId example_void_req) = ''42''"
  "var_PackageId example_void_req = 5"
  "var_PackageHash example_void_req = ''pkg''"
  by (simp_all add: example_void_req_def Sprint_42)

lemma mismatched_void_req_facts:
  "JsonHashS256 (example_lib mismatched_void_req) (Some (var_ImmutableContract mismatched_void_req))
     = Inr (var_ImmutableContractHash mismatched_void_req)"
  "cb_SchemaVersion (ic_Contract (var_ImmutableContract mismatched_void_req)) = 2"
  "cd_SchemaVersion (cb_Definition (ic_Contract (var_ImmutableContract mismatched_void_req))) = 1"
  by (simp_all add: example_JsonHash mismatched_void_req_def example_void_req_def
      mismatched_ic_def)
    (simp_all add: example_block_def example_definition_def)

lemma empty_ctx_fields:
  "world empty_ctx key = None" "writes empty_ctx = []"
  "getStateErr empty_ctx = None" "putStateErr empty_ctx = None"
  "mspID empty_ctx = Inr ''Org1MSP''" "txID empty_ctx = ''tx1''"
  "now empty_ctx = ''2024-06-01T12:00:00Z''"
  by (simp_all add: empty_ctx_def)

lemma ctx_with_fields:
  "world (ctx_with a) ''42'' = Some (Inr a)" "writes (ctx_with a) = []"
  "getStateErr (ctx_with a) = None" "putStateErr (ctx_with a) = None"
  "mspID (ctx_with a) = Inr ''Org1MSP''" "txID (ctx_with a) = ''tx1''"
  "now (ctx_with a) = ''2024-06-01T12:00:00Z''"
  by (simp_all add: ctx_with_def empty_ctx_def)

lemma ctx_with_wf:
  "c_ContractId a = 42 \<Longrightarrow> c_State a \<in> set lifecycle_states \<Longrightarrow> ledger_wf (world (ctx_with a))"
  by (simp add: ledger_wf_def ctx_with_def Sprint_42)

lemma active_ctx_wf: "ledger_wf (world (ctx_with active_asset))"
  by (rule ctx_with_wf)
    (simp_all add: active_asset_def lifecycle_states_def ContractStateActive_def)

lemma voided_ctx_wf: "ledger_wf (world (ctx_with voided_asset))"
  by (rule ctx_with_wf)
    (simp_all add: voided_asset_def lifecycle_states_def ContractStateVoided_def)

lemma void_active_asset:
  "active_asset\<lparr>c_State := ''voided'', c_UpdatedAt := ''2024-06-01T12:00:00Z'',
      c_Changes := c_Changes active_asset @
        [\<lparr>ch_PackageID = 5, ch_PackageHash = ''pkg'', ch_PackageDate = ''2024-06-01T12:00:00Z'',
          ch_CallerSdn = [], ch_Action = ''void'', ch_NewState = ''voided''\<rparr>]\<rparr> = voided_asset"
  by (simp add: active_asset_def voided_asset_def)

lemma expire_active_asset:
  "active_asset\<lparr>c_State := ''expired'', c_UpdatedAt := ''2024-06-01T12:00:00Z'',
      c_Changes := c_Changes active_asset @
        [\<lparr>ch_PackageID = 5, ch_PackageHash = ''pkg'', ch_PackageDate = ''2024-06-01T12:00:00Z'',
          ch_CallerSdn = [], ch_Action = ''expire'', ch_NewState = ''expired''\<rparr>]\<rparr> = expired_asset"
  by (simp add: active_asset_def expired_asset_def)

lemma active_asset_fields:
  "c_State active_asset = ''active''" "Sprint (c_ContractId active_asset) = ''42''"
  by (simp_all add: active_asset_def Sprint_42)

lemma example_void_run:
  "VoidAsset (example_lib example_void_req) (ctx_with active_asset) ''request''
     = (Inr \<lparr>vr_TxId = ''tx1''\<rparr>, ctx_after (ctx_with active_asset) voided_asset)"
proof -
  have stored: "world (ctx_with active_asset) (Sprint (var_ContractId example_void_req))
                  = Some (Inr active_asset)"
    by (simp add: example_void_req_fields ctx_with_fields)
  show ?thesis
    using VoidAsset_run [OF example_parse example_void_req_facts ctx_with_fields(5)
        ctx_with_fields(3) ctx_with_fields(4) stored]
    by (simp add: active_asset_fields example_void_req_fields ctx_with_fields
        void_active_asset ctx_after_def)
qed

lemma example_expire_run:
  "ExpireAsset (example_lib example_void_req) (ctx_with active_asset) ''request''
     = (Inr \<lparr>er_TxId = ''tx1''\<rparr>, ctx_after (ctx_with active_asset) expired_asset)"
proof -
  have stored: "world (ctx_with active_asset) (Sprint (var_ContractId example_void_req))
                  = Some (Inr active_asset)"
    by (simp add: example_void_req_fields ctx_with_fields)
  show ?thesis
    using ExpireAsset_run [OF example_parse example_void_req_facts
        ctx_with_fields(3) ctx_with_fields(4) stored]
    by (simp add: active_asset_fields example_void_req_fields ctx_with_fields
        expire_active_asset ctx_after_def)
qed

section \<open>Creation\<close>

text \<open>
  C6. A \<open>CreateAsset\<close> request that parses, whose immutable contract has the supplied hash
  as its digest and whose block passes validation, on a ledger gateway that does not fail:
  if no asset is stored under the decimal form of the block's \<open>ContractID\<close>, the operation
  stores under that key a new \<open>Contract\<close> with that id, state "active", no changes, the
  block's schema version as \<open>Version\<close>, the supplied hash as \<open>ContractHash\<close> and the same
  time in \<open>CreatedAt\<close> and \<open>UpdatedAt\<close>, and that is its one write; if something is stored
  under the key, it fails with "the contract <id> already exists" and writes nothing.
\<close>

theorem CreateAsset_stores_active_contract:
  assumes parse: "ParseRequest lib data = Inr cc"
    and hash: "JsonHashS256 lib (Some (nar_ImmutableContract cc))
                 = Inr (nar_ImmutableContractHash cc)"
    and valid: "ContractBlock_Validate (ic_Contract (nar_ImmutableContract cc)) = None"
    and gateway: "getStateErr ctx = None" "putStateErr ctx = None"
  shows
    "(world ctx (Sprint (cb_ContractID (ic_Contract (nar_ImmutableContract cc)))) = None \<longrightarrow>
        CreateAsset lib ctx data =
          (Inr \<lparr>car_ContractId = cb_ContractID (ic_Contract (nar_ImmutableContract cc)),
                car_TxId = txID ctx\<rparr>,
           ctx\<lparr>world := (world ctx)
                  (Sprint (cb_ContractID (ic_Contract (nar_ImmutableContract cc))) \<mapsto>
                     Inr \<lparr>c_ContractId = cb_ContractID (ic_Contract (nar_ImmutableContract cc)),
                          c_Version = cb_SchemaVersion (ic_Contract (nar_ImmutableContract cc)),
                          c_ContractHash = nar_ImmutableContractHash cc,
                          c_CreatedAt = now ctx, c_UpdatedAt = now ctx,
                          c_State = ''active'', c_Changes = []\<rparr>),
               writes := writes ctx @
                  [(Sprint (cb_ContractID (ic_Contract (nar_ImmutableContract cc))),
                    \<lparr>c_ContractId = cb_ContractID (ic_Contract (nar_ImmutableContract cc)),
                     c_Version = cb_SchemaVersion (ic_Contract (nar_ImmutableContract cc)),
                     c_ContractHash = nar_ImmutableContractHash cc,
                     c_CreatedAt = now ctx, c_UpdatedAt = now ctx,
                     c_State = ''active'', c_Changes = []\<rparr>)]\<rparr>))
     \<and> (world ctx (Sprint (cb_ContractID (ic_Contract (nar_ImmutableContract cc)))) \<noteq> None \<longrightarrow>
        CreateAsset lib ctx data =
          (Inl (''the contract '' @ Sprint (cb_ContractID (ic_Contract (nar_ImmutableContract cc)))
                  @ '' already exists''), ctx))"
  using CreateAsset_run [OF parse hash valid gateway] by simp

theorem CreateAsset_stores_active_contract_witness:
  "ParseRequest (example_lib example_new_req) ''request'' = Inr example_new_req
   \<and> world empty_ctx ''42'' = None
   \<and> CreateAsset (example_lib example_new_req) empty_ctx ''request''
       = (Inr \<lparr>car_ContractId = 42, car_TxId = ''tx1''\<rparr>, ctx_after empty_ctx (created_asset 1))
   \<and> world (ctx_with active_asset) ''42'' \<noteq> None
   \<and> CreateAsset (example_lib example_new_req) (ctx_with active_asset) ''request''
       = (Inl ''the contract 42 already exists'', ctx_with active_asset)"
proof -
  let ?lib = "example_lib example_new_req"
  have parse: "ParseRequest ?lib ''request'' = Inr example_new_req"
    by (rule example_parse)
  from CreateAsset_stores_active_contract
         [OF parse example_new_req_facts(1,2) empty_ctx_fields(3,4)]
  have fresh: "CreateAsset ?lib empty_ctx ''request''
      = (Inr \<lparr>car_ContractId = 42, car_TxId = ''tx1''\<rparr>, ctx_after empty_ctx (created_asset 1))"
    by (simp add: example_new_req_facts Sprint_42 empty_ctx_fields ctx_after_def
        created_asset_def)
  from CreateAsset_stores_active_contract
         [OF parse example_new_req_facts(1,2) ctx_with_fields(3,4), of active_asset]
  have again: "CreateAsset ?lib (ctx_with active_asset) ''request''
      = (Inl ''the contract 42 already exists'', ctx_with active_asset)"
    by (simp add: example_new_req_facts Sprint_42 ctx_with_fields)
  from parse fresh again show ?thesis
    by (simp add: empty_ctx_fields ctx_with_fields)
qed

text \<open>
  C5. The claim: \<open>CreateAsset\<close> too fails with a schema-version-mismatch error when the
  block's \<open>SchemaVersion\<close> differs from its definition's. The request \<open>mismatched_new_req\<close>
  carries schema version 2 in the block and 1 in the definition and is valid otherwise:
  \<open>CreateAsset\<close> accepts it and writes the contract with \<open>Version\<close> 2, while \<open>VoidAsset\<close>
  rejects the same document with "contract schema version does not match with definition".
\<close>

theorem CreateAsset_skips_schema_check:
  "cb_SchemaVersion (ic_Contract (nar_ImmutableContract mismatched_new_req)) = 2
   \<and> cd_SchemaVersion (cb_Definition (ic_Contract (nar_ImmutableContract mismatched_new_req))) = 1
   \<and> CreateAsset (example_lib mismatched_new_req) empty_ctx ''request''
       = (Inr \<lparr>car_ContractId = 42, car_TxId = ''tx1''\<rparr>, ctx_after empty_ctx (created_asset 2))
   \<and> writes (ctx_after empty_ctx (created_asset 2)) = [(''42'', created_asset 2)]
   \<and> var_ImmutableContract mismatched_void_req = nar_ImmutableContract mismatched_new_req
   \<and> VoidAsset (example_lib mismatched_void_req) (ctx_with (created_asset 2)) ''request''
       = (Inl ''contract schema version does not match with definition'',
          ctx_with (created_asset 2))"
proof -
  have create: "CreateAsset (example_lib mismatched_new_req) empty_ctx ''request''
      = (Inr \<lparr>car_ContractId = 42, car_TxId = ''tx1''\<rparr>, ctx_after empty_ctx (created_asset 2))"
    using CreateAsset_run [OF example_parse mismatched_new_req_facts(1,2) empty_ctx_fields(3,4)]
    by (simp add: mismatched_new_req_facts Sprint_42 empty_ctx_fields ctx_after_def
        created_asset_def)
  have void: "VoidAsset (example_lib mismatched_void_req) (ctx_with (created_asset 2)) ''request''
      = (Inl ''contract schema version does not match with definition'',
         ctx_with (created_asset 2))"
    by (simp add: VoidAsset_def example_parse mismatched_void_req_facts)
  have same: "var_ImmutableContract mismatched_void_req = nar_ImmutableContract mismatched_new_req"
    by (simp add: mismatched_void_req_def mismatched_new_req_def example_void_req_def
        example_new_req_def)
  from create void same show ?thesis
    by (simp add: mismatched_new_req_facts ctx_after_def empty_ctx_fields)
qed

section \<open>Voiding\<close>

text \<open>
  C3. A \<open>VoidAsset\<close> request that parses and passes the hash, schema-version and validator
  checks, on a gateway that does not fail, for an asset stored in a well-formed ledger
  under the request's contract id: the operation succeeds exactly when the asset's state
  is "active"; from "voided" it fails with "contract already voided", from "expired" with
  "contract expired, cannot void", from "released" with "contract released, cannot void",
  and leaves the context as it was; on success the asset stored under the key is the old
  one with state "voided", \<open>UpdatedAt\<close> set to the time of the operation, and one change
  with action "void" and new state "voided" appended.
\<close>

theorem VoidAsset_legal_only_from_active:
  assumes parse: "ParseRequest lib data = Inr cc"
    and hash: "JsonHashS256 lib (Some (var_ImmutableContract cc))
                 = Inr (var_ImmutableContractHash cc)"
    and schema: "cb_SchemaVersion (ic_Contract (var_ImmutableContract cc))
                 = cd_SchemaVersion (cb_Definition (ic_Contract (var_ImmutableContract cc)))"
    and valid: "ContractBlock_Validate (ic_Contract (var_ImmutableContract cc)) = None"
    and msp: "mspID ctx = Inr org"
    and gateway: "getStateErr ctx = None" "putStateErr ctx = None"
    and stored: "world ctx (Sprint (var_ContractId cc)) = Some (Inr asset)"
    and wf: "ledger_wf (world ctx)"
  shows
    "((\<exists>r ctx'. VoidAsset lib ctx data = (Inr r, ctx')) \<longleftrightarrow> c_State asset = ''active'')
     \<and> (c_State asset = ''voided'' \<longrightarrow>
          VoidAsset lib ctx data = (Inl ''contract already voided'', ctx))
     \<and> (c_State asset = ''expired'' \<longrightarrow>
          VoidAsset lib ctx data = (Inl ''contract expired, cannot void'', ctx))
     \<and> (c_State asset = ''released'' \<longrightarrow>
          VoidAsset lib ctx data = (Inl ''contract released, cannot void'', ctx))
     \<and> (c_State asset = ''active'' \<longrightarrow>
          VoidAsset lib ctx data =
            (Inr \<lparr>vr_TxId = txID ctx\<rparr>,
             ctx\<lparr>world := (world ctx)
                    (Sprint (var_ContractId cc) \<mapsto>
                       Inr (asset\<lparr>c_State := ''voided'', c_UpdatedAt := now ctx,
                                  c_Changes := c_Changes asset @
                                    [\<lparr>ch_PackageID = var_PackageId cc,
                                      ch_PackageHash = var_PackageHash cc,
                                      ch_PackageDate = now ctx, ch_CallerSdn = [],
                                      ch_Action = ''void'', ch_NewState = ''voided''\<rparr>]\<rparr>)),
                 writes := writes ctx @
                    [(Sprint (var_ContractId cc),
                      asset\<lparr>c_State := ''voided'', c_UpdatedAt := now ctx,
                            c_Changes := c_Changes asset @
                              [\<lparr>ch_PackageID = var_PackageId cc,
                                ch_PackageHash = var_PackageHash cc,
                                ch_PackageDate = now ctx, ch_CallerSdn = [],
                                ch_Action = ''void'', ch_NewState = ''voided''\<rparr>]\<rparr>)]\<rparr>))"
proof -
  from wf stored have key: "Sprint (c_ContractId asset) = Sprint (var_ContractId cc)"
    and st: "c_State asset \<in> set lifecycle_states"
    by (auto simp: ledger_wf_def)
  from st have states:
    "c_State asset = ''active'' \<or> c_State asset = ''voided'' \<or> c_State asset = ''expired''
       \<or> c_State asset = ''released''"
    by (simp add: lifecycle_states_def ContractStateActive_def ContractStateVoided_def
        ContractStateExpired_def ContractStateReleased_def)
  note run = VoidAsset_run [OF parse hash schema valid msp gateway stored, unfolded key]
  from states show ?thesis
    by (auto simp: run)
qed

theorem VoidAsset_legal_only_from_active_witness:
  "ParseRequest (example_lib example_void_req) ''request'' = Inr example_void_req
   \<and> ledger_wf (world (ctx_with active_asset))
   \<and> world (ctx_with active_asset) (Sprint (var_ContractId example_void_req))
       = Some (Inr active_asset)
   \<and> c_State active_asset = ''active''
   \<and> VoidAsset (example_lib example_void_req) (ctx_with active_asset) ''request''
       = (Inr \<lparr>vr_TxId = ''tx1''\<rparr>, ctx_after (ctx_with active_asset) voided_asset)
   \<and> ledger_wf (world (ctx_with voided_asset))
   \<and> world (ctx_with voided_asset) (Sprint (var_ContractId example_void_req))
       = Some (Inr voided_asset)
   \<and> c_State voided_asset = ''voided''
   \<and> VoidAsset (example_lib example_void_req) (ctx_with voided_asset) ''request''
       = (Inl ''contract already voided'', ctx_with voided_asset)"
proof -
  let ?lib = "example_lib example_void_req"
  have parse: "ParseRequest ?lib ''request'' = Inr example_void_req"
    by (rule example_parse)
  have stored: "world (ctx_with a) (Sprint (var_ContractId example_void_req)) = Some (Inr a)"
    for a
    by (simp add: example_void_req_fields ctx_with_fields)
  have st: "c_State active_asset = ''active''" "c_State voided_asset = ''voided''"
    by (simp_all add: active_asset_def voided_asset_def)
  from VoidAsset_legal_only_from_active
         [OF parse example_void_req_facts ctx_with_fields(5) ctx_with_fields(3)
           ctx_with_fields(4) stored active_ctx_wf] st(1)
  have first: "VoidAsset ?lib (ctx_with active_asset) ''request''
      = (Inr \<lparr>vr_TxId = ''tx1''\<rparr>, ctx_after (ctx_with active_asset) voided_asset)"
    by (simp add: example_void_req_fields ctx_with_fields void_active_asset ctx_after_def)
  from VoidAsset_legal_only_from_active
         [OF parse example_void_req_facts ctx_with_fields(5) ctx_with_fields(3)
           ctx_with_fields(4) stored voided_ctx_wf] st(2)
  have second: "VoidAsset ?lib (ctx_with voided_asset) ''request''
      = (Inl ''contract already voided'', ctx_with voided_asset)"
    by simp
  from parse active_ctx_wf voided_ctx_wf stored st first second
  show ?thesis by simp
qed

section \<open>No partial writes\<close>

text \<open>
  What holds of all three operations: an operation that returns an error, from a check or
  from the gateway, leaves the context as it was, and one that succeeds has made exactly
  one \<open>PutState\<close>. For \<open>VoidAsset\<close> and \<open>ExpireAsset\<close>, moreover, a failing check gives an
  error and success means that every check has passed.
\<close>

lemma writes_are_atomic:
  "(\<forall>e ctx'. CreateAsset libN ctx data = (Inl e, ctx') \<longrightarrow> ctx' = ctx)
   \<and> (\<forall>r ctx'. CreateAsset libN ctx data = (Inr r, ctx') \<longrightarrow>
         (\<exists>k v. writes ctx' = writes ctx @ [(k, v)]))
   \<and> (\<not> transition_checks libV ctx data \<longrightarrow> (\<exists>e. VoidAsset libV ctx data = (Inl e, ctx)))
   \<and> (\<forall>e ctx'. VoidAsset libV ctx data = (Inl e, ctx') \<longrightarrow> ctx' = ctx)
   \<and> (\<forall>r ctx'. VoidAsset libV ctx data = (Inr r, ctx') \<longrightarrow>
         transition_checks libV ctx data \<and> (\<exists>k v. writes ctx' = writes ctx @ [(k, v)]))
   \<and> (\<not> transition_checks libV ctx data \<longrightarrow> (\<exists>e. ExpireAsset libV ctx data = (Inl e, ctx)))
   \<and> (\<forall>e ctx'. ExpireAsset libV ctx data = (Inl e, ctx') \<longrightarrow> ctx' = ctx)
   \<and> (\<forall>r ctx'. ExpireAsset libV ctx data = (Inr r, ctx') \<longrightarrow>
         transition_checks libV ctx data \<and> (\<exists>k v. writes ctx' = writes ctx @ [(k, v)]))"
  using VoidAsset_fail [of libV ctx data] ExpireAsset_fail [of libV ctx data]
  by (blast dest: CreateAsset_Inl CreateAsset_Inr VoidAsset_Inl VoidAsset_Inr
      ExpireAsset_Inl ExpireAsset_Inr)

text \<open>
  C4. The claim: a request to \<open>CreateAsset\<close>, \<open>VoidAsset\<close> or \<open>ExpireAsset\<close> on which any
  check fails (request parse, hash binding, schema-version cross-check, validator,
  existence or current state) gets an error and no ledger write, and a write occurs only
  when every check has passed. On the request \<open>mismatched_new_req\<close> to \<open>CreateAsset\<close>, over
  the empty ledger, the schema-version cross-check fails (block 2, definition 1), so the
  checks of the claim do not all pass, while the request parses, the hash binds, the
  validator accepts and no asset exists: \<open>CreateAsset\<close> returns success and has made one
  \<open>PutState\<close>, because it does not compare the schema versions.
\<close>

theorem CreateAsset_writes_despite_failed_check:
  "\<not> CreateAsset_checks (example_lib mismatched_new_req) empty_ctx ''request''
   \<and> ParseRequest (example_lib mismatched_new_req) ''request'' = Inr mismatched_new_req
   \<and> JsonHashS256 (example_lib mismatched_new_req)
         (Some (nar_ImmutableContract mismatched_new_req))
       = Inr (nar_ImmutableContractHash mismatched_new_req)
   \<and> cb_SchemaVersion (ic_Contract (nar_ImmutableContract mismatched_new_req))
       \<noteq> cd_SchemaVersion (cb_Definition (ic_Contract (nar_ImmutableContract mismatched_new_req)))
   \<and> ContractBlock_Validate (ic_Contract (nar_ImmutableContract mismatched_new_req)) = None
   \<and> AssetExists empty_ctx
         (Sprint (cb_ContractID (ic_Contract (nar_ImmutableContract mismatched_new_req))))
       = Inr False
   \<and> fst (CreateAsset (example_lib mismatched_new_req) empty_ctx ''request'')
       = Inr \<lparr>car_ContractId = 42, car_TxId = ''tx1''\<rparr>
   \<and> writes (snd (CreateAsset (example_lib mismatched_new_req) empty_ctx ''request''))
       = writes empty_ctx @ [(''42'', created_asset 2)]"
proof -
  have run: "CreateAsset (example_lib mismatched_new_req) empty_ctx ''request''
      = (Inr \<lparr>car_ContractId = 42, car_TxId = ''tx1''\<rparr>, ctx_after empty_ctx (created_asset 2))"
    using CreateAsset_run [OF example_parse mismatched_new_req_facts(1,2) empty_ctx_fields(3,4)]
    by (simp add: mismatched_new_req_facts Sprint_42 empty_ctx_fields ctx_after_def
        created_asset_def)
  have absent: "AssetExists empty_ctx
         (Sprint (cb_ContractID (ic_Contract (nar_ImmutableContract mismatched_new_req))))
       = Inr False"
    by (simp add: AssetExists_def GetState_def empty_ctx_fields)
  have failed: "\<not> CreateAsset_checks (example_lib mismatched_new_req) empty_ctx ''request''"
    by (simp add: CreateAsset_checks_def example_parse mismatched_new_req_facts)
  from run absent failed show ?thesis
    by (simp add: example_parse mismatched_new_req_facts ctx_after_def)
qed

section \<open>The history is append-only\<close>

lemma transition_frameI:
  assumes "world ctx key = Some (Inr old)"
    and "PutState ctx key (old\<lparr>c_State := s, c_UpdatedAt := t, c_Changes := c_Changes old @ [ch]\<rparr>)
           = Inr ctx'"
  shows "transition_frame ctx ctx'"
  unfolding transition_frame_def
  apply (rule exI [of _ key])
  apply (rule exI [of _ old])
  apply (rule exI [of _ "old\<lparr>c_State := s, c_UpdatedAt := t, c_Changes := c_Changes old @ [ch]\<rparr>"])
  apply (rule exI [of _ ch])
  using assms(1) PutState_Inr [OF assms(2)] by simp

lemma VoidAsset_frame:
  assumes wf: "ledger_wf (world ctx)"
    and ok: "VoidAsset lib ctx data = (Inr r, ctx')"
  shows "transition_frame ctx ctx'"
proof -
  from ok obtain cc where parse: "ParseRequest lib data = Inr cc"
    by (rule VoidAsset_parsed)
  from ok parse obtain asset where read: "ReadAsset ctx (Sprint (var_ContractId cc)) = Inr asset"
    by (rule VoidAsset_read)
  note put = VoidAsset_put [OF ok parse read]
  from read have stored: "world ctx (Sprint (var_ContractId cc)) = Some (Inr asset)"
    by (rule ReadAsset_Inr)
  with wf have key: "Sprint (var_ContractId cc) = Sprint (c_ContractId asset)"
    by (auto simp: ledger_wf_def)
  from stored key have "world ctx (Sprint (c_ContractId asset)) = Some (Inr asset)"
    by simp
  then show ?thesis using put by (rule transition_frameI)
qed

lemma ExpireAsset_frame:
  assumes ok: "ExpireAsset lib ctx data = (Inr r, ctx')"
  shows "transition_frame ctx ctx'"
proof -
  from ok obtain cc where parse: "ParseRequest lib data = Inr cc"
    by (rule ExpireAsset_parsed)
  from ok parse obtain asset where read: "ReadAsset ctx (Sprint (var_ContractId cc)) = Inr asset"
    by (rule ExpireAsset_read)
  note put = ExpireAsset_put [OF ok parse read]
  from read have "world ctx (Sprint (var_ContractId cc)) = Some (Inr asset)"
    by (rule ReadAsset_Inr)
  then show ?thesis using put by (rule transition_frameI)
qed

text \<open>
  C9. On a well-formed ledger, a successful \<open>VoidAsset\<close> or \<open>ExpireAsset\<close> changes the
  asset under one key and nothing else, by one write: the new asset keeps every change
  record of the old one, in order, and has exactly one more at the end, and it has the old
  asset's \<open>ContractId\<close>, \<open>Version\<close>, \<open>ContractHash\<close> and \<open>CreatedAt\<close>; only \<open>State\<close>,
  \<open>UpdatedAt\<close> and \<open>Changes\<close> differ.
\<close>

theorem transitions_append_one_change:
  assumes wf: "ledger_wf (world ctx)"
  shows "(\<forall>r ctx'. VoidAsset lib ctx data = (Inr r, ctx') \<longrightarrow> transition_frame ctx ctx')
       \<and> (\<forall>r ctx'. ExpireAsset lib ctx data = (Inr r, ctx') \<longrightarrow> transition_frame ctx ctx')"
  using wf by (blast intro: VoidAsset_frame ExpireAsset_frame)

theorem transitions_append_one_change_witness:
  "ledger_wf (world (ctx_with active_asset))
   \<and> VoidAsset (example_lib example_void_req) (ctx_with active_asset) ''request''
       = (Inr \<lparr>vr_TxId = ''tx1''\<rparr>, ctx_after (ctx_with active_asset) voided_asset)
   \<and> transition_frame (ctx_with active_asset) (ctx_after (ctx_with active_asset) voided_asset)
   \<and> ExpireAsset (example_lib example_void_req) (ctx_with active_asset) ''request''
       = (Inr \<lparr>er_TxId = ''tx1''\<rparr>, ctx_after (ctx_with active_asset) expired_asset)
   \<and> transition_frame (ctx_with active_asset) (ctx_after (ctx_with active_asset) expired_asset)"
proof -
  note both = transitions_append_one_change [OF active_ctx_wf, of "example_lib example_void_req"
      "''request''"]
  from both example_void_run
  have v: "transition_frame (ctx_with active_asset) (ctx_after (ctx_with active_asset) voided_asset)"
    by blast
  from both example_expire_run
  have e: "transition_frame (ctx_with active_asset) (ctx_after (ctx_with active_asset) expired_asset)"
    by blast
  from active_ctx_wf example_void_run example_expire_run v e show ?thesis by simp
qed

end
